theory Spec2Isabelle
  imports Main
begin

section \<open>Data model\<close>

text \<open>
  The objects exchanged between the React pages and the REST service are JSON objects.
  An optional property (absent, \<^verbatim>\<open>null\<close> or \<^verbatim>\<open>undefined\<close>) is \<open>None\<close>; a string
  property is \<open>Some s\<close>. JavaScript tests such properties for truthiness: an absent
  property and the empty string are both falsy.
\<close>

definition truthy :: "string option \<Rightarrow> bool" where
  "truthy v = (case v of None \<Rightarrow> False | Some s \<Rightarrow> s \<noteq> [])"

text \<open>
  A deadline as \<^verbatim>\<open>api.createDeadline\<close> sends it and as the service returns it (there with
  its \<^verbatim>\<open>id\<close>). A date is held as the epoch milliseconds of the \<^verbatim>\<open>Date\<close> object that
  \<^verbatim>\<open>new Date(deadline_date)\<close> yields (the service stores a date-time for every deadline,
  so each one it returns denotes an instant); in a request it stands for the text
  \<^verbatim>\<open>toISOString()\<close> produces for that instant. The property \<^verbatim>\<open>description\<close> of a
  deadline is named \<open>deadline_description\<close> here.
\<close>

record deadline_data =
  deadline_type :: string
  deadline_date :: int
  deadline_description :: "string option"
  is_completed :: bool

record deadline = deadline_data +
  deadline_id :: nat

record app_note =
  note_id :: nat
  content :: string

text \<open>
  The fields of a job: the result of \<^verbatim>\<open>api.scrapeUrl\<close>, the \<^verbatim>\<open>scrapedData\<close> of the
  application form, and the body of \<^verbatim>\<open>api.createApplication\<close> and
  \<^verbatim>\<open>api.updateApplication\<close> are all objects over these properties. The property
  \<^verbatim>\<open>notes\<close> of the form is named \<open>notes_text\<close> here, and the \<^verbatim>\<open>notes\<close> array of an
  application \<open>app_notes\<close>. \<open>date_applied\<close> is an instant, as the dates of deadlines are.
\<close>

record job_record =
  company_name :: "string option"
  position_title :: "string option"
  job_url :: "string option"
  location :: "string option"
  salary :: "string option"
  description :: "string option"
  requirements :: "string option"
  notes_text :: "string option"
  status :: "string option"
  clean_text_content :: "string option"
  application_deadline :: "string option"
  ai_thoughts :: "string option"
  date_applied :: "int option"

text \<open>An application as \<^verbatim>\<open>api.getApplications\<close> and \<^verbatim>\<open>api.getApplication\<close> return it.\<close>

record application =
  app_id :: nat
  job :: job_record
  deadlines :: "deadline list option"
  app_notes :: "app_note list option"

section \<open>Next deadline of an application\<close>

text \<open>
  \<^verbatim>\<open>ds.filter(d => !d.is_completed).sort((a, b) => new Date(a.deadline_date) - new Date(b.deadline_date))[0]\<close>:
  \<^verbatim>\<open>Array.prototype.sort\<close> is a stable sort, and the comparator orders by the instant, so
  the sorted array is \<open>sort_key deadline_date\<close> of the filtered one; index 0 of an empty
  array is \<^verbatim>\<open>undefined\<close>.
\<close>

definition uncompleted :: "deadline list \<Rightarrow> deadline list" where
  "uncompleted ds = filter (\<lambda>d. \<not> is_completed d) ds"

definition earliest_uncompleted :: "deadline list \<Rightarrow> deadline option" where
  "earliest_uncompleted ds =
     (case sort_key deadline_date (uncompleted ds) of [] \<Rightarrow> None | d # _ \<Rightarrow> Some d)"

text \<open>\<^verbatim>\<open>AllApplications.getNextDeadline\<close>, used to display an application's next deadline.\<close>

definition getNextDeadline :: "application \<Rightarrow> deadline option" where
  "getNextDeadline app =
     (case deadlines app of
        None \<Rightarrow> None
      | Some ds \<Rightarrow> if length ds = 0 then None else earliest_uncompleted ds)"

text \<open>
  The comparison key of \<^verbatim>\<open>AllApplications.filterAndSortApplications\<close> under
  \<^verbatim>\<open>case 'deadline'\<close> (commented "Get next deadline" in the source):
  \<^verbatim>\<open>a.deadlines?.find((d) => !d.is_completed)\<close>.
\<close>

definition sortDeadline :: "application \<Rightarrow> deadline option" where
  "sortDeadline app =
     (case deadlines app of
        None \<Rightarrow> None
      | Some ds \<Rightarrow> List.find (\<lambda>d. \<not> is_completed d) ds)"

text \<open>The uncompleted deadlines of an application come in ascending order of date.\<close>

definition uncompleted_in_date_order :: "application \<Rightarrow> bool" where
  "uncompleted_in_date_order app =
     (case deadlines app of
        None \<Rightarrow> True
      | Some ds \<Rightarrow> sorted (map deadline_date (uncompleted ds)))"

section \<open>Home: upcoming deadlines\<close>

text \<open>
  \<^verbatim>\<open>Home.fetchUpcomingDeadlines\<close>, from the array \<^verbatim>\<open>api.getApplications\<close> returned to
  the array handed to \<^verbatim>\<open>setUpcomingDeadlines\<close>. An entry \<^verbatim>\<open>{ ...app, nextDeadline }\<close>
  is the pair of the application and its next deadline.
\<close>

definition has_deadlines :: "application \<Rightarrow> bool" where
  "has_deadlines app = (case deadlines app of None \<Rightarrow> False | Some ds \<Rightarrow> length ds > 0)"

definition with_nextDeadline :: "application \<Rightarrow> (application \<times> deadline) option" where
  "with_nextDeadline app =
     (case deadlines app of
        None \<Rightarrow> None
      | Some ds \<Rightarrow> (case earliest_uncompleted ds of None \<Rightarrow> None | Some d \<Rightarrow> Some (app, d)))"

primrec not_null :: "'a option list \<Rightarrow> 'a list" where
  "not_null [] = []"
| "not_null (x # xs) = (case x of None \<Rightarrow> not_null xs | Some y \<Rightarrow> y # not_null xs)"

definition fetchUpcomingDeadlines :: "application list \<Rightarrow> (application \<times> deadline) list" where
  "fetchUpcomingDeadlines applications =
     take 10
       (sort_key (\<lambda>e. deadline_date (snd e))
          (not_null (map with_nextDeadline (filter has_deadlines applications))))"

section \<open>Requests sent to the service\<close>

text \<open>
  Every function of \<^verbatim>\<open>services/api.js\<close> sends one HTTP request and either returns the
  parsed response or throws an \<^verbatim>\<open>Error\<close> with a message. A handler is modelled by the
  list of requests it sends, in order, together with the component state it leaves; the
  outcome of each call (\<open>Inl\<close> the message of the thrown error, \<open>Inr\<close> the response) is
  an argument of the handler.
\<close>

datatype request =
    ScrapeUrl string
  | GetApplications
  | GetApplication nat
  | CreateApplication job_record
  | UpdateApplication nat job_record
  | DeleteApplication nat
  | CreateJobDetails nat job_record
  | CreateNote nat string
  | UpdateNote nat string
  | DeleteNote nat
  | CreateDeadline nat deadline_data
  | UpdateDeadline nat bool
  | DeleteDeadline nat

text \<open>The object with no property set.\<close>

definition no_fields :: job_record where
  "no_fields =
     \<lparr>company_name = None, position_title = None, job_url = None, location = None,
      salary = None, description = None, requirements = None, notes_text = None,
      status = None, clean_text_content = None, application_deadline = None,
      ai_thoughts = None, date_applied = None\<rparr>"

text \<open>
  \<^verbatim>\<open>String.prototype.trim\<close> on strings of 8-bit code units: the white space and line
  terminators of ECMAScript below U+0100 are TAB, LF, VT, FF, CR, SPACE and NBSP.
\<close>

definition is_whitespace :: "char \<Rightarrow> bool" where
  "is_whitespace c = (c \<in> set [CHR 0x09, CHR 0x0A, CHR 0x0B, CHR 0x0C, CHR 0x0D, CHR 0x20, CHR 0xA0])"

definition trim :: "string \<Rightarrow> string" where
  "trim s = rev (dropWhile is_whitespace (rev (dropWhile is_whitespace s)))"

section \<open>Home: scrape and create\<close>

record home_state =
  url :: string
  home_loading :: bool
  home_error :: string
  home_navigated :: "nat option"

record scrape_responses =
  scrapeUrl_result :: "string + job_record"
  createApplication_result :: "string + nat"
  createJobDetails_result :: "string + unit"
  createDeadline_result :: "string + unit"

text \<open>The body of \<^verbatim>\<open>api.createApplication\<close> in \<^verbatim>\<open>Home.handleScrape\<close>.\<close>

definition scraped_application :: "string \<Rightarrow> job_record \<Rightarrow> job_record" where
  "scraped_application u jobData =
     no_fields
       \<lparr>company_name := company_name jobData,
        position_title := position_title jobData,
        location := location jobData,
        salary := salary jobData,
        job_url := (if truthy (job_url jobData) then job_url jobData else Some u),
        status := Some ''Applied''\<rparr>"

definition scraped_job_details :: "job_record \<Rightarrow> job_record" where
  "scraped_job_details jobData =
     no_fields
       \<lparr>description := description jobData,
        requirements := requirements jobData,
        clean_text_content := clean_text_content jobData,
        ai_thoughts := ai_thoughts jobData\<rparr>"

text \<open>
  The block "Add application deadline if found". \<open>parseDate\<close> is the parser of
  \<^verbatim>\<open>new Date(string)\<close>: \<open>None\<close> is the Invalid Date, on which \<^verbatim>\<open>toISOString()\<close>
  throws a \<^verbatim>\<open>RangeError\<close> before any request is sent; the inner \<^verbatim>\<open>try\<close> catches it,
  as it catches a failed \<^verbatim>\<open>api.createDeadline\<close>.
\<close>

definition scraped_deadline :: "(string \<Rightarrow> int option) \<Rightarrow> nat \<Rightarrow> job_record \<Rightarrow> request list" where
  "scraped_deadline parseDate newId jobData =
     (case application_deadline jobData of
        None \<Rightarrow> []
      | Some s \<Rightarrow>
          if s = [] then []
          else
            (case parseDate s of
               None \<Rightarrow> []
             | Some t \<Rightarrow>
                 [CreateDeadline newId
                    \<lparr>deadline_type = ''application'', deadline_date = t,
                     deadline_description = Some ''Application deadline'',
                     is_completed = False\<rparr>]))"

definition handleScrape ::
  "(string \<Rightarrow> int option) \<Rightarrow> scrape_responses \<Rightarrow> home_state \<Rightarrow> request list \<times> home_state" where
  "handleScrape parseDate r st =
     (if trim (url st) = [] then ([], st\<lparr>home_error := ''Please enter a job URL''\<rparr>)
      else
        (case scrapeUrl_result r of
           Inl msg \<Rightarrow> ([ScrapeUrl (url st)], st\<lparr>home_loading := False, home_error := msg\<rparr>)
         | Inr jobData \<Rightarrow>
             (case createApplication_result r of
                Inl msg \<Rightarrow>
                  ([ScrapeUrl (url st), CreateApplication (scraped_application (url st) jobData)],
                   st\<lparr>home_loading := False, home_error := msg\<rparr>)
              | Inr newId \<Rightarrow>
                  (let details =
                         (if truthy (description jobData) \<or> truthy (requirements jobData)
                             \<or> truthy (ai_thoughts jobData)
                          then [CreateJobDetails newId (scraped_job_details jobData)] else []);
                       sent = [ScrapeUrl (url st),
                               CreateApplication (scraped_application (url st) jobData)] @ details
                   in (case (details, createJobDetails_result r) of
                         (_ # _, Inl msg) \<Rightarrow> (sent, st\<lparr>home_loading := False, home_error := msg\<rparr>)
                       | _ \<Rightarrow>
                           (sent @ scraped_deadline parseDate newId jobData,
                            st\<lparr>home_loading := False, home_error := [],
                               home_navigated := Some newId\<rparr>))))))"

section \<open>ApplicationModal and Dashboard: the application form\<close>

record modal_state =
  jobUrl :: string
  isScrapingUrl :: bool
  scrapedData :: "job_record option"
  modal_error :: string

text \<open>The form data set in the \<^verbatim>\<open>catch\<close> branch of \<^verbatim>\<open>ApplicationModal.handleScrapeUrl\<close>.\<close>

definition manual_entry :: "string \<Rightarrow> job_record" where
  "manual_entry u =
     no_fields
       \<lparr>company_name := Some [], position_title := Some [], location := Some [],
        salary := Some [], description := Some [], requirements := Some [],
        notes_text := Some [], job_url := Some u\<rparr>"

definition handleScrapeUrl :: "string + job_record \<Rightarrow> modal_state \<Rightarrow> request list \<times> modal_state" where
  "handleScrapeUrl r st =
     (if trim (jobUrl st) = [] then ([], st\<lparr>modal_error := ''Please enter a valid URL''\<rparr>)
      else
        (case r of
           Inr data \<Rightarrow>
             ([ScrapeUrl (jobUrl st)],
              st\<lparr>isScrapingUrl := False, scrapedData := Some data, modal_error := []\<rparr>)
         | Inl msg \<Rightarrow>
             ([ScrapeUrl (jobUrl st)],
              st\<lparr>isScrapingUrl := False,
                 modal_error := msg @ ''. You can still add manually.'',
                 scrapedData := Some (manual_entry (jobUrl st))\<rparr>)))"

definition handleClose :: "modal_state \<Rightarrow> modal_state" where
  "handleClose st = st\<lparr>jobUrl := [], scrapedData := None, modal_error := []\<rparr>"

text \<open>
  \<^verbatim>\<open>ApplicationModal.handleSave\<close>; \<open>onSave\<close> is the callback the parent passed, given
  by the requests it sends for the data it receives.
\<close>

definition handleSave :: "(job_record \<Rightarrow> request list) \<Rightarrow> modal_state \<Rightarrow> request list \<times> modal_state" where
  "handleSave onSave st =
     (case scrapedData st of
        None \<Rightarrow> ([], st\<lparr>modal_error := ''Company name and position title are required''\<rparr>)
      | Some d \<Rightarrow>
          if \<not> truthy (company_name d) \<or> \<not> truthy (position_title d)
          then ([], st\<lparr>modal_error := ''Company name and position title are required''\<rparr>)
          else (onSave (d\<lparr>status := (if truthy (status d) then status d else Some ''Applied'')\<rparr>),
                handleClose st))"

text \<open>
  \<^verbatim>\<open>Dashboard.handleSaveApplication\<close>, the \<^verbatim>\<open>onSave\<close> of the form: \<open>editingApp\<close> is the
  application being edited, if any, and \<open>now\<close> the instant of \<^verbatim>\<open>new Date()\<close>. Only the
  request is modelled, not the refresh of the dashboard's list.
\<close>

definition handleSaveApplication :: "application option \<Rightarrow> int \<Rightarrow> job_record \<Rightarrow> request list" where
  "handleSaveApplication editingApp now data =
     (case editingApp of
        Some app \<Rightarrow> [UpdateApplication (app_id app) data]
      | None \<Rightarrow> [CreateApplication (data\<lparr>date_applied := Some now\<rparr>)])"

text \<open>
  What a caller of the scraper shows once the handler has run. The modal renders the
  entry form exactly when \<^verbatim>\<open>scrapedData\<close> is set; the Home page has a URL input, an
  error alert and the list of upcoming deadlines, and no entry form.
\<close>

datatype page = HomePage home_state | ModalPage modal_state

definition displayed_error :: "page \<Rightarrow> string" where
  "displayed_error p = (case p of HomePage st \<Rightarrow> home_error st | ModalPage st \<Rightarrow> modal_error st)"

definition entry_form :: "page \<Rightarrow> job_record option" where
  "entry_form p = (case p of HomePage st \<Rightarrow> None | ModalPage st \<Rightarrow> scrapedData st)"

section \<open>JobDetail: notes, deadlines and status of one application\<close>

record deadline_form =
  form_deadline_type :: string
  form_deadline_date :: string
  form_description :: string

text \<open>The initial value of \<^verbatim>\<open>newDeadline\<close>, to which a successful add resets it.\<close>

definition initial_newDeadline :: deadline_form where
  "initial_newDeadline =
     \<lparr>form_deadline_type = ''application'', form_deadline_date = [], form_description = []\<rparr>"

record job_detail_state =
  route_id :: nat
  shown_application :: "application option"
  jd_loading :: bool
  jd_error :: string
  isEditingStatus :: bool
  newStatus :: "string option"
  showNoteForm :: bool
  noteContent :: string
  editingNote :: "app_note option"
  showDeadlineForm :: bool
  newDeadline :: deadline_form
  jd_navigated :: bool

definition initial_job_detail :: "nat \<Rightarrow> job_detail_state" where
  "initial_job_detail i =
     \<lparr>route_id = i, shown_application = None, jd_loading = True, jd_error = [],
      isEditingStatus = False, newStatus = Some [], showNoteForm = False, noteContent = [],
      editingNote = None, showDeadlineForm = False, newDeadline = initial_newDeadline,
      jd_navigated = False\<rparr>"

text \<open>
  The outcomes of the calls of one handler: \<open>call_result\<close> for its own request,
  \<open>fetch_result\<close> for the \<^verbatim>\<open>api.getApplication\<close> of the \<^verbatim>\<open>fetchApplication\<close> that
  follows a successful request.
\<close>

record api_responses =
  call_result :: "string + unit"
  fetch_result :: "string + application"

definition fetchApplication ::
  "string + application \<Rightarrow> job_detail_state \<Rightarrow> request list \<times> job_detail_state" where
  "fetchApplication res st =
     ([GetApplication (route_id st)],
      (case res of
         Inr data \<Rightarrow>
           st\<lparr>shown_application := Some data, newStatus := status (job data), jd_loading := False\<rparr>
       | Inl msg \<Rightarrow> st\<lparr>jd_error := msg, jd_loading := False\<rparr>))"

text \<open>
  The shape shared by the handlers: send \<open>req\<close>; if it throws, log and stop; otherwise
  update the local state by \<open>after\<close> and fetch the application again.
\<close>

definition send_then_fetch ::
  "request \<Rightarrow> (job_detail_state \<Rightarrow> job_detail_state) \<Rightarrow> api_responses \<Rightarrow> job_detail_state
     \<Rightarrow> request list \<times> job_detail_state" where
  "send_then_fetch req after r st =
     (case call_result r of
        Inl msg \<Rightarrow> ([req], st)
      | Inr u \<Rightarrow>
          (req # fst (fetchApplication (fetch_result r) (after st)),
           snd (fetchApplication (fetch_result r) (after st))))"

definition handleUpdateStatus :: "api_responses \<Rightarrow> job_detail_state \<Rightarrow> request list \<times> job_detail_state" where
  "handleUpdateStatus r st =
     send_then_fetch (UpdateApplication (route_id st) (no_fields\<lparr>status := newStatus st\<rparr>))
       (\<lambda>s. s\<lparr>isEditingStatus := False\<rparr>) r st"

definition handleDeleteApplication ::
  "bool \<Rightarrow> api_responses \<Rightarrow> job_detail_state \<Rightarrow> request list \<times> job_detail_state" where
  "handleDeleteApplication confirmed r st =
     (if \<not> confirmed then ([], st)
      else
        (case call_result r of
           Inl msg \<Rightarrow> ([DeleteApplication (route_id st)], st)
         | Inr u \<Rightarrow> ([DeleteApplication (route_id st)], st\<lparr>jd_navigated := True\<rparr>)))"

definition handleAddNote :: "api_responses \<Rightarrow> job_detail_state \<Rightarrow> request list \<times> job_detail_state" where
  "handleAddNote r st =
     (if trim (noteContent st) = [] then ([], st)
      else send_then_fetch (CreateNote (route_id st) (noteContent st))
             (\<lambda>s. s\<lparr>noteContent := [], showNoteForm := False\<rparr>) r st)"

definition handleUpdateNote ::
  "nat \<Rightarrow> api_responses \<Rightarrow> job_detail_state \<Rightarrow> request list \<times> job_detail_state" where
  "handleUpdateNote noteId r st =
     (if trim (noteContent st) = [] then ([], st)
      else send_then_fetch (UpdateNote noteId (noteContent st))
             (\<lambda>s. s\<lparr>noteContent := [], editingNote := None\<rparr>) r st)"

definition handleDeleteNote ::
  "nat \<Rightarrow> bool \<Rightarrow> api_responses \<Rightarrow> job_detail_state \<Rightarrow> request list \<times> job_detail_state" where
  "handleDeleteNote noteId confirmed r st =
     (if \<not> confirmed then ([], st) else send_then_fetch (DeleteNote noteId) (\<lambda>s. s) r st)"

text \<open>
  \<^verbatim>\<open>handleAddDeadline\<close>: the body of the request is built inside the \<^verbatim>\<open>try\<close>, so the
  \<^verbatim>\<open>RangeError\<close> of \<^verbatim>\<open>toISOString()\<close> on an Invalid Date is caught and nothing is sent.
\<close>

definition handleAddDeadline ::
  "(string \<Rightarrow> int option) \<Rightarrow> api_responses \<Rightarrow> job_detail_state \<Rightarrow> request list \<times> job_detail_state" where
  "handleAddDeadline parseDate r st =
     (if form_deadline_date (newDeadline st) = [] then ([], st)
      else
        (case parseDate (form_deadline_date (newDeadline st)) of
           None \<Rightarrow> ([], st)
         | Some t \<Rightarrow>
             send_then_fetch
               (CreateDeadline (route_id st)
                  \<lparr>deadline_type = form_deadline_type (newDeadline st), deadline_date = t,
                   deadline_description = Some (form_description (newDeadline st)),
                   is_completed = False\<rparr>)
               (\<lambda>s. s\<lparr>newDeadline := initial_newDeadline, showDeadlineForm := False\<rparr>) r st))"

definition handleToggleDeadline ::
  "deadline \<Rightarrow> api_responses \<Rightarrow> job_detail_state \<Rightarrow> request list \<times> job_detail_state" where
  "handleToggleDeadline d r st =
     send_then_fetch (UpdateDeadline (deadline_id d) (\<not> is_completed d)) (\<lambda>s. s) r st"

definition handleDeleteDeadline ::
  "nat \<Rightarrow> bool \<Rightarrow> api_responses \<Rightarrow> job_detail_state \<Rightarrow> request list \<times> job_detail_state" where
  "handleDeleteDeadline deadlineId confirmed r st =
     (if \<not> confirmed then ([], st) else send_then_fetch (DeleteDeadline deadlineId) (\<lambda>s. s) r st)"

text \<open>
  \<^verbatim>\<open>getDaysUntilDeadline\<close>: \<^verbatim>\<open>Math.ceil((deadlineDate - now) / (1000 * 60 * 60 * 24))\<close>,
  the ceiling of the exact quotient, and the badge shown beside an uncompleted deadline.
\<close>

definition getDaysUntilDeadline :: "int \<Rightarrow> deadline \<Rightarrow> int" where
  "getDaysUntilDeadline now d = - ((now - deadline_date d) div (1000 * 60 * 60 * 24))"

datatype due_label = Overdue | Today | Tomorrow | Days int

definition due_badge :: "int \<Rightarrow> deadline \<Rightarrow> due_label option" where
  "due_badge now d =
     (if is_completed d then None
      else (let daysUntil = getDaysUntilDeadline now d
            in Some (if daysUntil < 0 then Overdue else if daysUntil = 0 then Today
                     else if daysUntil = 1 then Tomorrow else Days daysUntil)))"

text \<open>
  Rendering the page. Once the application is loaded, the deadline list is drawn from
  \<^verbatim>\<open>application.deadlines.sort(...)\<close>, which sorts the array held in the state in place;
  the view is the list of deadlines with their badges. Nothing is sent.
\<close>

definition render_state :: "job_detail_state \<Rightarrow> job_detail_state" where
  "render_state st =
     (if jd_loading st \<or> jd_error st \<noteq> [] then st
      else
        (case shown_application st of
           None \<Rightarrow> st
         | Some app \<Rightarrow>
             (case deadlines app of
                None \<Rightarrow> st
              | Some ds \<Rightarrow>
                  if length ds > 0
                  then st\<lparr>shown_application := Some (app\<lparr>deadlines := Some (sort_key deadline_date ds)\<rparr>)\<rparr>
                  else st)))"

definition render_deadlines :: "int \<Rightarrow> job_detail_state \<Rightarrow> (deadline \<times> due_label option) list" where
  "render_deadlines now st =
     (if jd_loading st \<or> jd_error st \<noteq> [] then []
      else
        (case shown_application (render_state st) of
           None \<Rightarrow> []
         | Some app \<Rightarrow>
             (case deadlines app of None \<Rightarrow> [] | Some ds \<Rightarrow> map (\<lambda>d. (d, due_badge now d)) ds)))"

text \<open>The options of the two \<^verbatim>\<open>select\<close> elements of the page.\<close>

datatype deadline_type_option =
  Application | Interview | Assessment | Follow_up | Decision | Offer_response

fun deadline_type_value :: "deadline_type_option \<Rightarrow> string" where
  "deadline_type_value Application = ''application''"
| "deadline_type_value Interview = ''interview''"
| "deadline_type_value Assessment = ''assessment''"
| "deadline_type_value Follow_up = ''follow_up''"
| "deadline_type_value Decision = ''decision''"
| "deadline_type_value Offer_response = ''offer_response''"

datatype status_option =
  Applied | Pending_Interview | Interview_status | Interview_Scheduled | Offer | Offer_Received
  | Rejected

fun status_value :: "status_option \<Rightarrow> string" where
  "status_value Applied = ''Applied''"
| "status_value Pending_Interview = ''Pending Interview''"
| "status_value Interview_status = ''Interview''"
| "status_value Interview_Scheduled = ''Interview Scheduled''"
| "status_value Offer = ''Offer''"
| "status_value Offer_Received = ''Offer Received''"
| "status_value Rejected = ''Rejected''"

definition deadline_type_options :: "string list" where
  "deadline_type_options =
     map deadline_type_value [Application, Interview, Assessment, Follow_up, Decision, Offer_response]"

text \<open>
  Everything that happens on the page: the mount effect, a render at some instant, and
  each input and button of the JSX. A \<^verbatim>\<open>confirm\<close> dialog contributes its answer.
\<close>

datatype job_detail_event =
    Mount
  | Render int
  | ClickChangeStatus
  | SelectStatus status_option
  | ClickSaveStatus
  | ClickCancelStatus
  | ClickDeleteApplication bool
  | ClickToggleNoteForm
  | InputNoteContent string
  | ClickSaveNote
  | ClickCancelNote
  | ClickEditNote app_note
  | ClickDeleteNote nat bool
  | ClickToggleDeadlineForm
  | SelectDeadlineType deadline_type_option
  | InputDeadlineDate string
  | InputDeadlineDescription string
  | ClickAddDeadline
  | ClickCancelDeadline
  | ClickToggleDeadline deadline
  | ClickDeleteDeadline nat bool

fun job_detail_step ::
  "(string \<Rightarrow> int option) \<Rightarrow> job_detail_event \<Rightarrow> api_responses \<Rightarrow> job_detail_state
     \<Rightarrow> request list \<times> job_detail_state" where
  "job_detail_step parseDate Mount r st =
     fetchApplication (fetch_result r) (st\<lparr>jd_loading := True\<rparr>)"
| "job_detail_step parseDate (Render now) r st = ([], render_state st)"
| "job_detail_step parseDate ClickChangeStatus r st = ([], st\<lparr>isEditingStatus := True\<rparr>)"
| "job_detail_step parseDate (SelectStatus v) r st = ([], st\<lparr>newStatus := Some (status_value v)\<rparr>)"
| "job_detail_step parseDate ClickSaveStatus r st = handleUpdateStatus r st"
| "job_detail_step parseDate ClickCancelStatus r st = ([], st\<lparr>isEditingStatus := False\<rparr>)"
| "job_detail_step parseDate (ClickDeleteApplication c) r st = handleDeleteApplication c r st"
| "job_detail_step parseDate ClickToggleNoteForm r st =
     ([], st\<lparr>showNoteForm := \<not> showNoteForm st, editingNote := None, noteContent := []\<rparr>)"
| "job_detail_step parseDate (InputNoteContent v) r st = ([], st\<lparr>noteContent := v\<rparr>)"
| "job_detail_step parseDate ClickSaveNote r st =
     (case editingNote st of
        Some n \<Rightarrow> handleUpdateNote (note_id n) r st
      | None \<Rightarrow> handleAddNote r st)"
| "job_detail_step parseDate ClickCancelNote r st =
     ([], st\<lparr>showNoteForm := False, editingNote := None, noteContent := []\<rparr>)"
| "job_detail_step parseDate (ClickEditNote n) r st =
     ([], st\<lparr>editingNote := Some n, noteContent := content n, showNoteForm := False\<rparr>)"
| "job_detail_step parseDate (ClickDeleteNote i c) r st = handleDeleteNote i c r st"
| "job_detail_step parseDate ClickToggleDeadlineForm r st =
     ([], st\<lparr>showDeadlineForm := \<not> showDeadlineForm st\<rparr>)"
| "job_detail_step parseDate (SelectDeadlineType v) r st =
     ([], st\<lparr>newDeadline := (newDeadline st)\<lparr>form_deadline_type := deadline_type_value v\<rparr>\<rparr>)"
| "job_detail_step parseDate (InputDeadlineDate v) r st =
     ([], st\<lparr>newDeadline := (newDeadline st)\<lparr>form_deadline_date := v\<rparr>\<rparr>)"
| "job_detail_step parseDate (InputDeadlineDescription v) r st =
     ([], st\<lparr>newDeadline := (newDeadline st)\<lparr>form_description := v\<rparr>\<rparr>)"
| "job_detail_step parseDate ClickAddDeadline r st = handleAddDeadline parseDate r st"
| "job_detail_step parseDate ClickCancelDeadline r st = ([], st\<lparr>showDeadlineForm := False\<rparr>)"
| "job_detail_step parseDate (ClickToggleDeadline d) r st = handleToggleDeadline d r st"
| "job_detail_step parseDate (ClickDeleteDeadline i c) r st = handleDeleteDeadline i c r st"

text \<open>A session on the page: the events in order, each with the outcomes of its calls.\<close>

fun job_detail_run ::
  "(string \<Rightarrow> int option) \<Rightarrow> (job_detail_event \<times> api_responses) list \<Rightarrow> job_detail_state
     \<Rightarrow> request list \<times> job_detail_state" where
  "job_detail_run parseDate [] st = ([], st)"
| "job_detail_run parseDate ((e, r) # es) st =
     (let (sent, st') = job_detail_step parseDate e r st;
          (sent', st'') = job_detail_run parseDate es st'
      in (sent @ sent', st''))"

section \<open>AllApplications and Home: the badge of the next deadline\<close>

text \<open>
  The list of \<^verbatim>\<open>AllApplications\<close> shows, for each application, the badge of
  \<^verbatim>\<open>getNextDeadline(app)\<close>; \<^verbatim>\<open>Home.getDeadlineStatus\<close> computes the text of the badge
  of an upcoming deadline the same way.
\<close>

definition list_badge :: "int \<Rightarrow> application \<Rightarrow> due_label option" where
  "list_badge now app =
     (case getNextDeadline app of
        None \<Rightarrow> None
      | Some d \<Rightarrow>
          (let daysUntil = getDaysUntilDeadline now d
           in Some (if daysUntil < 0 then Overdue else if daysUntil = 0 then Today
                    else if daysUntil = 1 then Tomorrow else Days daysUntil)))"

definition getDeadlineStatus :: "int \<Rightarrow> deadline \<Rightarrow> due_label" where
  "getDeadlineStatus now d =
     (let daysUntil = getDaysUntilDeadline now d
      in if daysUntil < 0 then Overdue else if daysUntil = 0 then Today
         else if daysUntil = 1 then Tomorrow else Days daysUntil)"

section \<open>The store behind the service\<close>





text \<open>
  The deadlines whose completion buttons the page shows: none while it is loading or when
  \<^verbatim>\<open>error || !application\<close> holds (the page then renders a spinner or "Application Not
  Found"), otherwise the elements of \<^verbatim>\<open>application.deadlines\<close> as the render sorted
  them. Each button calls \<^verbatim>\<open>handleToggleDeadline(deadline)\<close> with its element of that
  array.
\<close>

definition displayed_deadlines :: "job_detail_state \<Rightarrow> deadline list" where
  "displayed_deadlines st =
     (if jd_loading st \<or> jd_error st \<noteq> [] then []
      else
        (case shown_application (render_state st) of
           None \<Rightarrow> []
         | Some app \<Rightarrow> (case deadlines app of None \<Rightarrow> [] | Some ds \<Rightarrow> ds)))"



section \<open>Observations on requests\<close>

text \<open>The requests that create an application, its job details or a deadline.\<close>

definition creates :: "request \<Rightarrow> bool" where
  "creates req =
     (case req of
        CreateApplication p \<Rightarrow> True
      | CreateJobDetails i p \<Rightarrow> True
      | CreateDeadline i p \<Rightarrow> True
      | _ \<Rightarrow> False)"

section \<open>Example data\<close>

definition interview_deadline :: deadline where
  "interview_deadline =
     \<lparr>deadline_type = ''interview'', deadline_date = 1739181600000,
      deadline_description = None, is_completed = False, deadline_id = 1\<rparr>"

definition application_deadline_row :: deadline where
  "application_deadline_row =
     \<lparr>deadline_type = ''application'', deadline_date = 1738367999000,
      deadline_description = None, is_completed = False, deadline_id = 2\<rparr>"

definition acme :: application where
  "acme =
     \<lparr>app_id = 1,
      job = no_fields\<lparr>company_name := Some ''Acme'', position_title := Some ''Engineer'',
                      status := Some ''Applied''\<rparr>,
      deadlines = Some [interview_deadline, application_deadline_row],
      app_notes = None\<rparr>"

definition acme_in_date_order :: application where
  "acme_in_date_order = acme\<lparr>deadlines := Some [application_deadline_row, interview_deadline]\<rparr>"

definition example_parseDate :: "string \<Rightarrow> int option" where
  "example_parseDate s = (if s = ''2025-02-01'' then Some 1738368000000 else None)"

definition techcorp :: job_record where
  "techcorp =
     no_fields\<lparr>company_name := Some ''TechCorp'', position_title := Some ''Engineer'',
               location := Some ''London, UK'', description := Some ''Build things'',
               application_deadline := Some ''2025-02-01''\<rparr>"

definition scrape_succeeds :: "job_record \<Rightarrow> scrape_responses" where
  "scrape_succeeds jobData =
     \<lparr>scrapeUrl_result = Inr jobData, createApplication_result = Inr 5,
      createJobDetails_result = Inr (), createDeadline_result = Inr ()\<rparr>"

definition scrape_fails :: scrape_responses where
  "scrape_fails =
     \<lparr>scrapeUrl_result = Inl ''Failed to scrape URL'', createApplication_result = Inr 5,
      createJobDetails_result = Inr (), createDeadline_result = Inr ()\<rparr>"

definition home_with_url :: home_state where
  "home_with_url =
     \<lparr>url = ''https://x.io/1'', home_loading = False, home_error = [], home_navigated = None\<rparr>"

definition modal_with_url :: modal_state where
  "modal_with_url =
     \<lparr>jobUrl = ''https://x.io/1'', isScrapingUrl = False, scrapedData = None, modal_error = []\<rparr>"

definition acme_form :: job_record where
  "acme_form = no_fields\<lparr>company_name := Some ''Acme'', position_title := Some ''Engineer''\<rparr>"

definition modal_filled :: modal_state where
  "modal_filled =
     \<lparr>jobUrl = [], isScrapingUrl = False, scrapedData = Some acme_form, modal_error = []\<rparr>"

definition modal_without_company :: modal_state where
  "modal_without_company =
     \<lparr>jobUrl = [], isScrapingUrl = False,
      scrapedData = Some (acme_form\<lparr>company_name := Some []\<rparr>), modal_error = []\<rparr>"

definition responses_ok :: api_responses where
  "responses_ok = \<lparr>call_result = Inr (), fetch_result = Inr acme\<rparr>"

definition blank_note_page :: job_detail_state where
  "blank_note_page = (initial_job_detail 1)\<lparr>noteContent := [CHR '' '', CHR 0x09]\<rparr>"

definition typed_note_page :: job_detail_state where
  "typed_note_page = (initial_job_detail 1)\<lparr>noteContent := '' follow up''\<rparr>"

definition acme_page :: job_detail_state where
  "acme_page = (initial_job_detail 1)\<lparr>shown_application := Some acme, jd_loading := False\<rparr>"

definition add_interview_session :: "(job_detail_event \<times> api_responses) list" where
  "add_interview_session =
     [(Mount, responses_ok),
      (ClickToggleDeadlineForm, responses_ok),
      (SelectDeadlineType Interview, responses_ok),
      (InputDeadlineDate ''2025-02-01'', responses_ok),
      (ClickAddDeadline, responses_ok)]"




section \<open>Properties of the next deadline\<close>

lemma earliest_uncompleted_None:
  "earliest_uncompleted ds = None \<longleftrightarrow> uncompleted ds = []"
proof -
  have "sort_key deadline_date (uncompleted ds) = [] \<longleftrightarrow> uncompleted ds = []"
    by (metis length_sort length_0_conv)
  then show ?thesis
    by (cases "sort_key deadline_date (uncompleted ds)")
       (simp_all add: earliest_uncompleted_def)
qed

lemma sorted_head_least:
  assumes "sorted (map f (x # xs))" and "y \<in> set (x # xs)"
  shows "f x \<le> f y"
  using assms by auto

lemma earliest_uncompleted_Some:
  assumes "earliest_uncompleted ds = Some d"
  shows "d \<in> set ds \<and> \<not> is_completed d
         \<and> (\<forall>e \<in> set ds. \<not> is_completed e \<longrightarrow> deadline_date d \<le> deadline_date e)"
proof -
  from assms obtain rest where s: "sort_key deadline_date (uncompleted ds) = d # rest"
    by (auto simp: earliest_uncompleted_def split: list.splits)
  have "d \<in> set (sort_key deadline_date (uncompleted ds))"
    by (simp add: s)
  then have mem: "d \<in> set (uncompleted ds)"
    by simp
  have srt: "sorted (map deadline_date (d # rest))"
    using sorted_sort_key [of deadline_date "uncompleted ds"] by (simp only: s)
  have least: "deadline_date d \<le> deadline_date e" if "e \<in> set ds" "\<not> is_completed e" for e
  proof -
    from that have "e \<in> set (sort_key deadline_date (uncompleted ds))"
      by (simp add: uncompleted_def)
    then have "e \<in> set (d # rest)"
      by (simp only: s)
    with srt show ?thesis
      by (rule sorted_head_least)
  qed
  from mem least show ?thesis
    by (auto simp: uncompleted_def)
qed


lemma not_null_mem: "y \<in> set (not_null xs) \<longleftrightarrow> Some y \<in> set xs"
  by (induction xs) (auto split: option.splits)

lemma with_nextDeadline_Some:
  assumes "with_nextDeadline app = Some (app', d)"
  shows "app' = app \<and> (\<exists>ds. deadlines app = Some ds \<and> earliest_uncompleted ds = Some d)"
  using assms by (auto simp: with_nextDeadline_def split: option.splits)

lemma upcoming_sorted:
  "sorted (map (\<lambda>e. deadline_date (snd e)) (fetchUpcomingDeadlines apps))"
proof -
  let ?f = "\<lambda>e. deadline_date (snd e)"
  let ?xs = "not_null (map with_nextDeadline (filter has_deadlines apps))"
  have "sorted (take 10 (map ?f (sort_key ?f ?xs)))"
    by (rule sorted_wrt_take) (rule sorted_sort_key)
  then show ?thesis
    by (simp add: fetchUpcomingDeadlines_def take_map)
qed

lemma upcoming_entry:
  assumes "(app, d) \<in> set (fetchUpcomingDeadlines apps)"
  shows "app \<in> set apps \<and> (\<exists>ds. deadlines app = Some ds \<and> earliest_uncompleted ds = Some d)"
proof -
  from assms have "(app, d) \<in> set (sort_key (\<lambda>e. deadline_date (snd e))
          (not_null (map with_nextDeadline (filter has_deadlines apps))))"
    unfolding fetchUpcomingDeadlines_def by (rule in_set_takeD)
  then have "Some (app, d) \<in> set (map with_nextDeadline (filter has_deadlines apps))"
    by (simp add: not_null_mem)
  then obtain a where a: "a \<in> set apps" "with_nextDeadline a = Some (app, d)"
    by auto
  from with_nextDeadline_Some [OF a(2)] a(1) show ?thesis
    by auto
qed

text \<open>
  C10. The list of upcoming deadlines on the Home page has at most 10 entries; every entry
  is one of the applications returned by the store, paired with one of its own deadlines
  that is not completed and whose date is no later than that of any other uncompleted
  deadline of the application; the entries are in ascending order of that date.
\<close>

theorem fetchUpcomingDeadlines_top10_sorted:
  "length (fetchUpcomingDeadlines apps) \<le> 10
   \<and> (\<forall>(app, d) \<in> set (fetchUpcomingDeadlines apps).
         app \<in> set apps
         \<and> (\<exists>ds. deadlines app = Some ds \<and> d \<in> set ds \<and> \<not> is_completed d
                \<and> (\<forall>e \<in> set ds. \<not> is_completed e \<longrightarrow> deadline_date d \<le> deadline_date e)))
   \<and> sorted (map (\<lambda>e. deadline_date (snd e)) (fetchUpcomingDeadlines apps))"
proof (intro conjI)
  show "length (fetchUpcomingDeadlines apps) \<le> 10"
    by (simp add: fetchUpcomingDeadlines_def)
next
  show "\<forall>(app, d) \<in> set (fetchUpcomingDeadlines apps).
         app \<in> set apps
         \<and> (\<exists>ds. deadlines app = Some ds \<and> d \<in> set ds \<and> \<not> is_completed d
                \<and> (\<forall>e \<in> set ds. \<not> is_completed e \<longrightarrow> deadline_date d \<le> deadline_date e))"
  proof (clarify)
    fix app d
    assume "(app, d) \<in> set (fetchUpcomingDeadlines apps)"
    from upcoming_entry [OF this] obtain ds where
      "app \<in> set apps" "deadlines app = Some ds" "earliest_uncompleted ds = Some d"
      by auto
    with earliest_uncompleted_Some [of ds d]
    show "app \<in> set apps
         \<and> (\<exists>ds. deadlines app = Some ds \<and> d \<in> set ds \<and> \<not> is_completed d
                \<and> (\<forall>e \<in> set ds. \<not> is_completed e \<longrightarrow> deadline_date d \<le> deadline_date e))"
      by auto
  qed
next
  show "sorted (map (\<lambda>e. deadline_date (snd e)) (fetchUpcomingDeadlines apps))"
    by (rule upcoming_sorted)
qed

theorem fetchUpcomingDeadlines_top10_sorted_witness:
  "(acme, application_deadline_row) \<in> set (fetchUpcomingDeadlines [acme])
   \<and> acme \<in> set [acme]
   \<and> (\<exists>ds. deadlines acme = Some ds \<and> application_deadline_row \<in> set ds
          \<and> \<not> is_completed application_deadline_row
          \<and> (\<forall>e \<in> set ds. \<not> is_completed e
                \<longrightarrow> deadline_date application_deadline_row \<le> deadline_date e))"
proof -
  have mem: "(acme, application_deadline_row) \<in> set (fetchUpcomingDeadlines [acme])"
    by (simp add: fetchUpcomingDeadlines_def has_deadlines_def with_nextDeadline_def
        earliest_uncompleted_def uncompleted_def acme_def interview_deadline_def
        application_deadline_row_def)
  from fetchUpcomingDeadlines_top10_sorted [of "[acme]"] mem show ?thesis
    by blast
qed

section \<open>The two readings of the next deadline\<close>

lemma find_is_head_of_filter:
  "List.find P xs = (case filter P xs of [] \<Rightarrow> None | x # _ \<Rightarrow> Some x)"
  by (induction xs) auto

text \<open>
  C9. The deadline used as the comparison key when sorting applications by next deadline
  should be the deadline displayed as the next one. For an application whose later
  deadline was stored first the two differ: the key is the interview, first in list
  order, while the deadline displayed is the application deadline, earliest in date.
\<close>

theorem next_deadline_definitions_differ:
  "sortDeadline acme = Some interview_deadline
   \<and> getNextDeadline acme = Some application_deadline_row
   \<and> interview_deadline \<noteq> application_deadline_row"
  by (simp add: sortDeadline_def getNextDeadline_def earliest_uncompleted_def uncompleted_def
      acme_def interview_deadline_def application_deadline_row_def)

text \<open>
  Where the uncompleted deadlines of an application are listed in ascending order of
  \<open>deadline_date\<close>, the comparison key is the deadline displayed.
\<close>

lemma next_deadline_agree_when_ordered:
  assumes "uncompleted_in_date_order app"
  shows "sortDeadline app = getNextDeadline app"
proof (cases "deadlines app")
  case None
  then show ?thesis
    by (simp add: sortDeadline_def getNextDeadline_def)
next
  case (Some ds)
  with assms have "sorted (map deadline_date (uncompleted ds))"
    by (simp add: uncompleted_in_date_order_def)
  then have "sort_key deadline_date (uncompleted ds) = uncompleted ds"
    by (rule sort_key_id_if_sorted)
  then have "earliest_uncompleted ds = List.find (\<lambda>d. \<not> is_completed d) ds"
    by (simp add: earliest_uncompleted_def uncompleted_def find_is_head_of_filter)
  with Some show ?thesis
    by (cases ds) (simp_all add: sortDeadline_def getNextDeadline_def)
qed

lemma next_deadline_agree_when_ordered_example:
  "uncompleted_in_date_order acme_in_date_order
   \<and> sortDeadline acme_in_date_order = getNextDeadline acme_in_date_order
   \<and> sortDeadline acme_in_date_order = Some application_deadline_row"
proof -
  have h: "uncompleted_in_date_order acme_in_date_order"
    by (simp add: uncompleted_in_date_order_def uncompleted_def acme_in_date_order_def acme_def
        interview_deadline_def application_deadline_row_def)
  have v: "sortDeadline acme_in_date_order = Some application_deadline_row"
    by (simp add: sortDeadline_def acme_in_date_order_def acme_def
        interview_deadline_def application_deadline_row_def)
  from next_deadline_agree_when_ordered [OF h] h v show ?thesis
    by simp
qed

section \<open>Home: what the scrape-and-create flow sends\<close>

lemma scraped_deadline_cases:
  "scraped_deadline parseDate newId jobData = [] \<or>
   (\<exists>s t. application_deadline jobData = Some s \<and> s \<noteq> [] \<and> parseDate s = Some t \<and>
      scraped_deadline parseDate newId jobData =
        [CreateDeadline newId
           \<lparr>deadline_type = ''application'', deadline_date = t,
            deadline_description = Some ''Application deadline'', is_completed = False\<rparr>])"
  by (auto simp: scraped_deadline_def truthy_def split: option.splits)

lemma handleScrape_sent:
  "fst (handleScrape parseDate r st) = [] \<or>
   fst (handleScrape parseDate r st) = [ScrapeUrl (url st)] \<and> isl (scrapeUrl_result r) \<or>
   (\<exists>jobData. scrapeUrl_result r = Inr jobData \<and>
      (fst (handleScrape parseDate r st) =
         [ScrapeUrl (url st), CreateApplication (scraped_application (url st) jobData)] \<or>
       (\<exists>newId. createApplication_result r = Inr newId \<and>
          (fst (handleScrape parseDate r st) =
             [ScrapeUrl (url st), CreateApplication (scraped_application (url st) jobData),
              CreateJobDetails newId (scraped_job_details jobData)] \<or>
           fst (handleScrape parseDate r st) =
             [ScrapeUrl (url st), CreateApplication (scraped_application (url st) jobData)]
               @ scraped_deadline parseDate newId jobData \<or>
           fst (handleScrape parseDate r st) =
             [ScrapeUrl (url st), CreateApplication (scraped_application (url st) jobData),
              CreateJobDetails newId (scraped_job_details jobData)]
               @ scraped_deadline parseDate newId jobData))))"
  by (auto simp: handleScrape_def Let_def split: sum.splits list.splits)

lemma handleScrape_CreateDeadline:
  assumes "CreateDeadline i p \<in> set (fst (handleScrape parseDate r st))"
  shows "\<exists>jobData. scrapeUrl_result r = Inr jobData \<and> createApplication_result r = Inr i
           \<and> CreateDeadline i p \<in> set (scraped_deadline parseDate i jobData)"
proof -
  have other: "CreateDeadline j q \<in> set (scraped_deadline parseDate n jobData) \<Longrightarrow> j = n"
    for j q n jobData
    using scraped_deadline_cases [of parseDate n jobData] by auto
  from handleScrape_sent [of parseDate r st] assms show ?thesis
    by (elim disjE exE conjE) (auto dest: other)
qed

lemma handleScrape_CreateApplication:
  assumes "CreateApplication p \<in> set (fst (handleScrape parseDate r st))"
  shows "\<exists>jobData. scrapeUrl_result r = Inr jobData \<and> p = scraped_application (url st) jobData"
proof -
  have none: "CreateApplication q \<notin> set (scraped_deadline parseDate n jobData)" for q n jobData
    using scraped_deadline_cases [of parseDate n jobData] by auto
  from handleScrape_sent [of parseDate r st] assms show ?thesis
    by (elim disjE exE conjE) (auto simp: none)
qed

text \<open>
  C2. When the scrape result has no \<open>application_deadline\<close>, the scrape-and-create flow
  sends no request to create a deadline. Every deadline it creates is for the application
  just created, from a deadline value the extractor returned (present and non-empty), with
  type \<open>application\<close>, the instant that value denotes, and not completed.
\<close>

theorem scrape_creates_deadline_only_from_result:
  "(scrapeUrl_result r = Inr jobData \<and> application_deadline jobData = None
      \<longrightarrow> (\<forall>i p. CreateDeadline i p \<notin> set (fst (handleScrape parseDate r st))))
   \<and> (CreateDeadline i p \<in> set (fst (handleScrape parseDate r st))
      \<longrightarrow> (\<exists>jobData s t.
             scrapeUrl_result r = Inr jobData \<and> createApplication_result r = Inr i
             \<and> application_deadline jobData = Some s \<and> s \<noteq> [] \<and> parseDate s = Some t
             \<and> p = \<lparr>deadline_type = ''application'', deadline_date = t,
                    deadline_description = Some ''Application deadline'',
                    is_completed = False\<rparr>))"
proof (intro conjI impI allI)
  fix j q
  assume a: "scrapeUrl_result r = Inr jobData \<and> application_deadline jobData = None"
  show "CreateDeadline j q \<notin> set (fst (handleScrape parseDate r st))"
  proof
    assume "CreateDeadline j q \<in> set (fst (handleScrape parseDate r st))"
    from handleScrape_CreateDeadline [OF this] a
    have "CreateDeadline j q \<in> set (scraped_deadline parseDate j jobData)"
      by auto
    with a show False
      by (simp add: scraped_deadline_def truthy_def)
  qed
next
  assume "CreateDeadline i p \<in> set (fst (handleScrape parseDate r st))"
  from handleScrape_CreateDeadline [OF this] obtain jobData where
    j: "scrapeUrl_result r = Inr jobData" "createApplication_result r = Inr i"
       "CreateDeadline i p \<in> set (scraped_deadline parseDate i jobData)"
    by auto
  from scraped_deadline_cases [of parseDate i jobData] j(3)
  obtain s t where "application_deadline jobData = Some s" "s \<noteq> []" "parseDate s = Some t"
    "p = \<lparr>deadline_type = ''application'', deadline_date = t,
          deadline_description = Some ''Application deadline'', is_completed = False\<rparr>"
    by auto
  with j(1,2) show "\<exists>jobData s t.
             scrapeUrl_result r = Inr jobData \<and> createApplication_result r = Inr i
             \<and> application_deadline jobData = Some s \<and> s \<noteq> [] \<and> parseDate s = Some t
             \<and> p = \<lparr>deadline_type = ''application'', deadline_date = t,
                    deadline_description = Some ''Application deadline'',
                    is_completed = False\<rparr>"
    by blast
qed

lemma trim_example_url: "trim ''https://x.io/1'' \<noteq> []"
  by (simp add: trim_def is_whitespace_def)

lemma handleScrape_techcorp:
  "fst (handleScrape example_parseDate (scrape_succeeds techcorp) home_with_url) =
     [ScrapeUrl ''https://x.io/1'',
      CreateApplication (scraped_application ''https://x.io/1'' techcorp),
      CreateJobDetails 5 (scraped_job_details techcorp),
      CreateDeadline 5
        \<lparr>deadline_type = ''application'', deadline_date = 1738368000000,
         deadline_description = Some ''Application deadline'', is_completed = False\<rparr>]"
  using trim_example_url
  by (simp add: handleScrape_def scrape_succeeds_def home_with_url_def techcorp_def
      no_fields_def truthy_def scraped_deadline_def example_parseDate_def)

theorem scrape_creates_deadline_only_from_result_witness:
  "CreateDeadline 5
     \<lparr>deadline_type = ''application'', deadline_date = 1738368000000,
      deadline_description = Some ''Application deadline'', is_completed = False\<rparr>
     \<in> set (fst (handleScrape example_parseDate (scrape_succeeds techcorp) home_with_url))
   \<and> (\<exists>jobData s t.
         scrapeUrl_result (scrape_succeeds techcorp) = Inr jobData
         \<and> createApplication_result (scrape_succeeds techcorp) = Inr 5
         \<and> application_deadline jobData = Some s \<and> s \<noteq> [] \<and> example_parseDate s = Some t
         \<and> t = 1738368000000)
   \<and> scrapeUrl_result (scrape_succeeds (techcorp\<lparr>application_deadline := None\<rparr>))
       = Inr (techcorp\<lparr>application_deadline := None\<rparr>)
   \<and> application_deadline (techcorp\<lparr>application_deadline := None\<rparr>) = None
   \<and> (\<forall>i p. CreateDeadline i p \<notin> set (fst (handleScrape example_parseDate
          (scrape_succeeds (techcorp\<lparr>application_deadline := None\<rparr>)) home_with_url)))"
proof -
  let ?p = "\<lparr>deadline_type = ''application'', deadline_date = 1738368000000,
      deadline_description = Some ''Application deadline'', is_completed = False\<rparr>"
  have a: "CreateDeadline 5 ?p
     \<in> set (fst (handleScrape example_parseDate (scrape_succeeds techcorp) home_with_url))"
    by (simp add: handleScrape_techcorp)
  have b: "scrapeUrl_result (scrape_succeeds (techcorp\<lparr>application_deadline := None\<rparr>))
       = Inr (techcorp\<lparr>application_deadline := None\<rparr>)
     \<and> application_deadline (techcorp\<lparr>application_deadline := None\<rparr>) = None"
    by (simp add: scrape_succeeds_def)
  from scrape_creates_deadline_only_from_result
         [where r = "scrape_succeeds techcorp" and parseDate = example_parseDate
            and st = home_with_url and i = 5 and p = ?p]
       a
  have c: "\<exists>jobData s t.
         scrapeUrl_result (scrape_succeeds techcorp) = Inr jobData
         \<and> createApplication_result (scrape_succeeds techcorp) = Inr 5
         \<and> application_deadline jobData = Some s \<and> s \<noteq> [] \<and> example_parseDate s = Some t
         \<and> t = 1738368000000"
    by fastforce
  from scrape_creates_deadline_only_from_result
         [where r = "scrape_succeeds (techcorp\<lparr>application_deadline := None\<rparr>)"
            and jobData = "techcorp\<lparr>application_deadline := None\<rparr>"
            and parseDate = example_parseDate and st = home_with_url]
       b
  have d: "\<forall>i p. CreateDeadline i p \<notin> set (fst (handleScrape example_parseDate
          (scrape_succeeds (techcorp\<lparr>application_deadline := None\<rparr>)) home_with_url))"
    by blast
  from a b c d show ?thesis
    by blast
qed

section \<open>The application form\<close>

text \<open>
  C5. Every application created without an explicit status is created with status
  \<open>Applied\<close>: each create request of the scrape-and-create flow carries status
  \<open>Applied\<close>, and the form, when its data carries no status (absent or empty), hands its
  data on with status \<open>Applied\<close>, which is what the create request then carries; a
  status that is present is handed on as it is.
\<close>

theorem created_without_status_is_Applied:
  "(CreateApplication p \<in> set (fst (handleScrape parseDate r st)) \<longrightarrow> status p = Some ''Applied'')
   \<and> (scrapedData ms = Some d \<and> truthy (company_name d) \<and> truthy (position_title d)
        \<and> \<not> truthy (status d)
      \<longrightarrow> fst (handleSave onSave ms) = onSave (d\<lparr>status := Some ''Applied''\<rparr>)
          \<and> fst (handleSave (handleSaveApplication None now) ms) =
               [CreateApplication (d\<lparr>status := Some ''Applied'', date_applied := Some now\<rparr>)])
   \<and> (scrapedData ms = Some d \<and> truthy (company_name d) \<and> truthy (position_title d)
        \<and> truthy (status d)
      \<longrightarrow> fst (handleSave onSave ms) = onSave d)"
proof (intro conjI impI)
  assume "CreateApplication p \<in> set (fst (handleScrape parseDate r st))"
  from handleScrape_CreateApplication [OF this] show "status p = Some ''Applied''"
    by (auto simp: scraped_application_def)
next
  assume "scrapedData ms = Some d \<and> truthy (company_name d) \<and> truthy (position_title d)
        \<and> \<not> truthy (status d)"
  then show "fst (handleSave onSave ms) = onSave (d\<lparr>status := Some ''Applied''\<rparr>)"
    by (simp add: handleSave_def)
next
  assume "scrapedData ms = Some d \<and> truthy (company_name d) \<and> truthy (position_title d)
        \<and> \<not> truthy (status d)"
  then show "fst (handleSave (handleSaveApplication None now) ms) =
               [CreateApplication (d\<lparr>status := Some ''Applied'', date_applied := Some now\<rparr>)]"
    by (simp add: handleSave_def handleSaveApplication_def)
next
  assume "scrapedData ms = Some d \<and> truthy (company_name d) \<and> truthy (position_title d)
        \<and> truthy (status d)"
  then show "fst (handleSave onSave ms) = onSave d"
    by (simp add: handleSave_def)
qed

lemma acme_form_truthy:
  "truthy (company_name acme_form)" "truthy (position_title acme_form)"
  "\<not> truthy (status acme_form)"
  by (simp_all add: acme_form_def no_fields_def truthy_def)

theorem created_without_status_is_Applied_witness:
  "CreateApplication (scraped_application ''https://x.io/1'' techcorp)
     \<in> set (fst (handleScrape example_parseDate (scrape_succeeds techcorp) home_with_url))
   \<and> status (scraped_application ''https://x.io/1'' techcorp) = Some ''Applied''
   \<and> scrapedData modal_filled = Some acme_form \<and> truthy (company_name acme_form)
   \<and> truthy (position_title acme_form) \<and> \<not> truthy (status acme_form)
   \<and> fst (handleSave (handleSaveApplication None 42) modal_filled) =
        [CreateApplication (acme_form\<lparr>status := Some ''Applied'', date_applied := Some 42\<rparr>)]
   \<and> truthy (status (acme_form\<lparr>status := Some ''Offer''\<rparr>))
   \<and> fst (handleSave (handleSaveApplication None 42)
             (modal_filled\<lparr>scrapedData := Some (acme_form\<lparr>status := Some ''Offer''\<rparr>)\<rparr>)) =
        [CreateApplication (acme_form\<lparr>status := Some ''Offer'', date_applied := Some 42\<rparr>)]"
proof -
  have a: "CreateApplication (scraped_application ''https://x.io/1'' techcorp)
     \<in> set (fst (handleScrape example_parseDate (scrape_succeeds techcorp) home_with_url))"
    by (simp add: handleScrape_techcorp)
  have b: "scrapedData modal_filled = Some acme_form"
    by (simp add: modal_filled_def)
  have c: "scrapedData (modal_filled\<lparr>scrapedData := Some (acme_form\<lparr>status := Some ''Offer''\<rparr>)\<rparr>)
             = Some (acme_form\<lparr>status := Some ''Offer''\<rparr>)
           \<and> truthy (company_name (acme_form\<lparr>status := Some ''Offer''\<rparr>))
           \<and> truthy (position_title (acme_form\<lparr>status := Some ''Offer''\<rparr>))
           \<and> truthy (status (acme_form\<lparr>status := Some ''Offer''\<rparr>))"
    using acme_form_truthy by (simp add: truthy_def)
  from created_without_status_is_Applied
         [where p = "scraped_application ''https://x.io/1'' techcorp"
            and parseDate = example_parseDate and r = "scrape_succeeds techcorp"
            and st = home_with_url and ms = modal_filled and d = acme_form and now = 42]
       a b acme_form_truthy
  have d: "status (scraped_application ''https://x.io/1'' techcorp) = Some ''Applied''
     \<and> fst (handleSave (handleSaveApplication None 42) modal_filled) =
        [CreateApplication (acme_form\<lparr>status := Some ''Applied'', date_applied := Some 42\<rparr>)]"
    by blast
  from created_without_status_is_Applied
         [where ms = "modal_filled\<lparr>scrapedData := Some (acme_form\<lparr>status := Some ''Offer''\<rparr>)\<rparr>"
            and d = "acme_form\<lparr>status := Some ''Offer''\<rparr>"
            and onSave = "handleSaveApplication None 42"]
       c
  have e: "fst (handleSave (handleSaveApplication None 42)
             (modal_filled\<lparr>scrapedData := Some (acme_form\<lparr>status := Some ''Offer''\<rparr>)\<rparr>)) =
        [CreateApplication (acme_form\<lparr>status := Some ''Offer'', date_applied := Some 42\<rparr>)]"
    by (simp add: handleSaveApplication_def)
  from a b c d e acme_form_truthy show ?thesis
    by simp
qed

text \<open>
  C1, as stated: whenever company name and position title are both non-empty, a save from
  the form issues the create request. It fails when the form is editing an existing
  application: the update request for that application is issued, and no create request.
\<close>

theorem form_save_counterexample:
  "scrapedData modal_filled = Some acme_form
   \<and> truthy (company_name acme_form) \<and> truthy (position_title acme_form)
   \<and> fst (handleSave (handleSaveApplication (Some acme) 42) modal_filled) =
        [UpdateApplication 1 (acme_form\<lparr>status := Some ''Applied''\<rparr>)]"
  using acme_form_truthy
  by (simp add: handleSave_def handleSaveApplication_def modal_filled_def acme_def)

text \<open>
  C1, amended: for every save attempt from the application form, if the company name or
  the position title is empty (or absent) the save is rejected with the error message
  "Company name and position title are required", the form stays as it is, and no create
  or update request is issued; when both are non-empty, the create request is issued with
  the entered fields (and the date applied) if no application is being edited, and the
  update request for the edited application, with the entered fields, otherwise.
\<close>

theorem form_save_requires_company_and_title:
  "((scrapedData ms = None
      \<or> (\<exists>d. scrapedData ms = Some d
             \<and> (\<not> truthy (company_name d) \<or> \<not> truthy (position_title d))))
     \<longrightarrow> handleSave (handleSaveApplication editingApp now) ms =
           ([], ms\<lparr>modal_error := ''Company name and position title are required''\<rparr>))
   \<and> (scrapedData ms = Some d \<and> truthy (company_name d) \<and> truthy (position_title d)
     \<longrightarrow> fst (handleSave (handleSaveApplication editingApp now) ms) =
           (case editingApp of
              None \<Rightarrow>
                [CreateApplication
                   (d\<lparr>status := (if truthy (status d) then status d else Some ''Applied''),
                      date_applied := Some now\<rparr>)]
            | Some app \<Rightarrow>
                [UpdateApplication (app_id app)
                   (d\<lparr>status := (if truthy (status d) then status d else Some ''Applied'')\<rparr>)]))"
  by (auto simp: handleSave_def handleSaveApplication_def split: option.splits)

theorem form_save_requires_company_and_title_witness:
  "scrapedData modal_without_company = Some (acme_form\<lparr>company_name := Some []\<rparr>)
   \<and> \<not> truthy (company_name (acme_form\<lparr>company_name := Some []\<rparr>))
   \<and> handleSave (handleSaveApplication None 42) modal_without_company =
        ([], modal_without_company\<lparr>modal_error := ''Company name and position title are required''\<rparr>)
   \<and> scrapedData modal_filled = Some acme_form
   \<and> truthy (company_name acme_form) \<and> truthy (position_title acme_form)
   \<and> fst (handleSave (handleSaveApplication None 42) modal_filled) =
        [CreateApplication (acme_form\<lparr>status := Some ''Applied'', date_applied := Some 42\<rparr>)]"
proof -
  have a: "scrapedData modal_without_company = Some (acme_form\<lparr>company_name := Some []\<rparr>)
     \<and> \<not> truthy (company_name (acme_form\<lparr>company_name := Some []\<rparr>))"
    by (simp add: modal_without_company_def truthy_def)
  have b: "scrapedData modal_filled = Some acme_form"
    by (simp add: modal_filled_def)
  from form_save_requires_company_and_title
         [where ms = modal_without_company and editingApp = None and now = 42]
       a
  have c: "handleSave (handleSaveApplication None 42) modal_without_company =
        ([], modal_without_company\<lparr>modal_error := ''Company name and position title are required''\<rparr>)"
    by blast
  from form_save_requires_company_and_title
         [where ms = modal_filled and d = acme_form and editingApp = None and now = 42]
       b acme_form_truthy
  have d: "fst (handleSave (handleSaveApplication None 42) modal_filled) =
        [CreateApplication (acme_form\<lparr>status := Some ''Applied'', date_applied := Some 42\<rparr>)]"
    by simp
  from a b c d acme_form_truthy show ?thesis
    by simp
qed

section \<open>A scrape that fails\<close>

lemma manual_entry_fields:
  "job_url (manual_entry u) = Some u"
  "\<not> truthy (company_name (manual_entry u))" "\<not> truthy (position_title (manual_entry u))"
  "\<not> truthy (location (manual_entry u))" "\<not> truthy (salary (manual_entry u))"
  "\<not> truthy (description (manual_entry u))" "\<not> truthy (requirements (manual_entry u))"
  "\<not> truthy (notes_text (manual_entry u))" "\<not> truthy (status (manual_entry u))"
  "\<not> truthy (clean_text_content (manual_entry u))"
  "\<not> truthy (application_deadline (manual_entry u))"
  "\<not> truthy (ai_thoughts (manual_entry u))" "date_applied (manual_entry u) = None"
  by (simp_all add: manual_entry_def no_fields_def truthy_def)

text \<open>
  C3, as stated: after every failed scrape the caller shows the manual-entry form,
  pre-filled with the URL. It fails on the Home page: the failed scrape leaves the error
  message and the URL input, and no entry form.
\<close>

theorem scrape_failure_counterexample:
  "trim (url home_with_url) \<noteq> []
   \<and> scrapeUrl_result scrape_fails = Inl ''Failed to scrape URL''
   \<and> fst (handleScrape example_parseDate scrape_fails home_with_url) = [ScrapeUrl ''https://x.io/1'']
   \<and> displayed_error (HomePage (snd (handleScrape example_parseDate scrape_fails home_with_url)))
       = ''Failed to scrape URL''
   \<and> entry_form (HomePage (snd (handleScrape example_parseDate scrape_fails home_with_url))) = None
   \<and> home_navigated (snd (handleScrape example_parseDate scrape_fails home_with_url)) = None"
  using trim_example_url
  by (simp add: handleScrape_def scrape_fails_def home_with_url_def displayed_error_def
      entry_form_def)

text \<open>
  C3, amended: for every scrape invocation that fails, no request creating an
  application, job details or a deadline is issued and the failure message is displayed.
  In the application form the message is followed by ". You can still add manually." and
  the manual-entry form is shown, pre-filled with the raw URL the user entered as the
  \<open>job_url\<close>, every other field empty or absent. On the Home page the message is
  displayed alone: the page keeps the entered URL, navigates nowhere and shows no
  manual-entry form.
\<close>

theorem scrape_failure_falls_back:
  "(trim (url st) \<noteq> [] \<and> scrapeUrl_result r = Inl msg
     \<longrightarrow> (\<forall>req \<in> set (fst (handleScrape parseDate r st)). \<not> creates req)
         \<and> displayed_error (HomePage (snd (handleScrape parseDate r st))) = msg
         \<and> entry_form (HomePage (snd (handleScrape parseDate r st))) = None
         \<and> url (snd (handleScrape parseDate r st)) = url st
         \<and> home_navigated (snd (handleScrape parseDate r st)) = home_navigated st)
   \<and> (trim (jobUrl ms) \<noteq> []
     \<longrightarrow> (\<forall>req \<in> set (fst (handleScrapeUrl (Inl msg) ms)). \<not> creates req)
         \<and> displayed_error (ModalPage (snd (handleScrapeUrl (Inl msg) ms)))
             = msg @ ''. You can still add manually.''
         \<and> (\<exists>f. entry_form (ModalPage (snd (handleScrapeUrl (Inl msg) ms))) = Some f
                \<and> job_url f = Some (jobUrl ms)
                \<and> \<not> truthy (company_name f) \<and> \<not> truthy (position_title f)
                \<and> \<not> truthy (location f) \<and> \<not> truthy (salary f)
                \<and> \<not> truthy (description f) \<and> \<not> truthy (requirements f)
                \<and> \<not> truthy (notes_text f) \<and> \<not> truthy (status f)
                \<and> \<not> truthy (clean_text_content f) \<and> \<not> truthy (application_deadline f)
                \<and> \<not> truthy (ai_thoughts f) \<and> date_applied f = None))"
proof (intro conjI impI)
  assume a: "trim (url st) \<noteq> [] \<and> scrapeUrl_result r = Inl msg"
  then have run: "handleScrape parseDate r st =
      ([ScrapeUrl (url st)], st\<lparr>home_loading := False, home_error := msg\<rparr>)"
    by (simp add: handleScrape_def)
  show "\<forall>req \<in> set (fst (handleScrape parseDate r st)). \<not> creates req"
    by (simp add: run creates_def)
  show "displayed_error (HomePage (snd (handleScrape parseDate r st))) = msg"
    by (simp add: run displayed_error_def)
  show "entry_form (HomePage (snd (handleScrape parseDate r st))) = None"
    by (simp add: entry_form_def)
  show "url (snd (handleScrape parseDate r st)) = url st"
    by (simp add: run)
  show "home_navigated (snd (handleScrape parseDate r st)) = home_navigated st"
    by (simp add: run)
next
  assume a: "trim (jobUrl ms) \<noteq> []"
  then have run: "handleScrapeUrl (Inl msg) ms =
      ([ScrapeUrl (jobUrl ms)],
       ms\<lparr>isScrapingUrl := False, modal_error := msg @ ''. You can still add manually.'',
          scrapedData := Some (manual_entry (jobUrl ms))\<rparr>)"
    by (simp add: handleScrapeUrl_def)
  show "\<forall>req \<in> set (fst (handleScrapeUrl (Inl msg) ms)). \<not> creates req"
    by (simp add: run creates_def)
  show "displayed_error (ModalPage (snd (handleScrapeUrl (Inl msg) ms)))
             = msg @ ''. You can still add manually.''"
    by (simp add: run displayed_error_def)
  have "entry_form (ModalPage (snd (handleScrapeUrl (Inl msg) ms)))
          = Some (manual_entry (jobUrl ms))"
    by (simp add: run entry_form_def)
  with manual_entry_fields [of "jobUrl ms"]
  show "\<exists>f. entry_form (ModalPage (snd (handleScrapeUrl (Inl msg) ms))) = Some f
                \<and> job_url f = Some (jobUrl ms)
                \<and> \<not> truthy (company_name f) \<and> \<not> truthy (position_title f)
                \<and> \<not> truthy (location f) \<and> \<not> truthy (salary f)
                \<and> \<not> truthy (description f) \<and> \<not> truthy (requirements f)
                \<and> \<not> truthy (notes_text f) \<and> \<not> truthy (status f)
                \<and> \<not> truthy (clean_text_content f) \<and> \<not> truthy (application_deadline f)
                \<and> \<not> truthy (ai_thoughts f) \<and> date_applied f = None"
    by blast
qed

theorem scrape_failure_falls_back_witness:
  "trim (url home_with_url) \<noteq> [] \<and> scrapeUrl_result scrape_fails = Inl ''Failed to scrape URL''
   \<and> ScrapeUrl ''https://x.io/1'' \<in> set (fst (handleScrape example_parseDate scrape_fails home_with_url))
   \<and> \<not> creates (ScrapeUrl ''https://x.io/1'')
   \<and> displayed_error (HomePage (snd (handleScrape example_parseDate scrape_fails home_with_url)))
       = ''Failed to scrape URL''
   \<and> trim (jobUrl modal_with_url) \<noteq> []
   \<and> ScrapeUrl ''https://x.io/1''
       \<in> set (fst (handleScrapeUrl (Inl ''Failed to scrape URL'') modal_with_url))
   \<and> displayed_error (ModalPage (snd (handleScrapeUrl (Inl ''Failed to scrape URL'') modal_with_url)))
       = ''Failed to scrape URL. You can still add manually.''
   \<and> (\<exists>f. entry_form (ModalPage (snd (handleScrapeUrl (Inl ''Failed to scrape URL'') modal_with_url)))
            = Some f
          \<and> job_url f = Some ''https://x.io/1'')"
proof -
  have a: "trim (url home_with_url) \<noteq> [] \<and> scrapeUrl_result scrape_fails = Inl ''Failed to scrape URL''"
    using trim_example_url by (simp add: home_with_url_def scrape_fails_def)
  have b: "trim (jobUrl modal_with_url) \<noteq> []" "jobUrl modal_with_url = ''https://x.io/1''"
    using trim_example_url by (simp_all add: modal_with_url_def)
  have c: "ScrapeUrl ''https://x.io/1'' \<in> set (fst (handleScrape example_parseDate scrape_fails home_with_url))"
    using trim_example_url by (simp add: handleScrape_def home_with_url_def scrape_fails_def)
  have d: "ScrapeUrl ''https://x.io/1''
       \<in> set (fst (handleScrapeUrl (Inl ''Failed to scrape URL'') modal_with_url))"
    using trim_example_url by (simp add: handleScrapeUrl_def modal_with_url_def)
  from scrape_failure_falls_back
         [where st = home_with_url and r = scrape_fails and msg = "''Failed to scrape URL''"
            and parseDate = example_parseDate and ms = modal_with_url]
       a b c d
  show ?thesis
    by auto
qed

section \<open>JobDetail: what each handler sends\<close>

lemma trim_empty_iff: "trim s = [] \<longleftrightarrow> (\<forall>c \<in> set s. is_whitespace c)"
proof
  assume "trim s = []"
  then have "\<forall>c \<in> set (dropWhile is_whitespace s). is_whitespace c"
    by (simp add: trim_def)
  then have "dropWhile is_whitespace s = []"
    using hd_dropWhile [of is_whitespace s] hd_in_set [of "dropWhile is_whitespace s"]
    by blast
  then show "\<forall>c \<in> set s. is_whitespace c"
    by simp
next
  assume "\<forall>c \<in> set s. is_whitespace c"
  then have "\<forall>c \<in> set (dropWhile is_whitespace s). is_whitespace c"
    by (blast dest: set_dropWhileD)
  then show "trim s = []"
    by (simp add: trim_def)
qed

lemma send_then_fetch_sent:
  "fst (send_then_fetch req after r st) = [req]
   \<or> fst (send_then_fetch req after r st) = [req, GetApplication (route_id (after st))]"
  by (simp add: send_then_fetch_def fetchApplication_def split: sum.splits)

text \<open>
  C6. A note is created or updated only with non-blank content: when the content is empty
  or consists only of white space, \<open>handleAddNote\<close> and \<open>handleUpdateNote\<close> send nothing
  and leave the page as it is, so the notes held by the service, however it serves
  requests, are unchanged; otherwise the first request sent is the create (or update)
  with the content exactly as typed, followed at most by the reload of the application.
\<close>

theorem note_requires_content:
  "((\<forall>c \<in> set (noteContent st). is_whitespace c)
      \<longrightarrow> handleAddNote r st = ([], st) \<and> handleUpdateNote noteId r st = ([], st)
          \<and> fold serve (fst (handleAddNote r st)) db = db
          \<and> fold serve (fst (handleUpdateNote noteId r st)) db = db)
   \<and> (\<not> (\<forall>c \<in> set (noteContent st). is_whitespace c)
      \<longrightarrow> (\<exists>rest. fst (handleAddNote r st) = CreateNote (route_id st) (noteContent st) # rest
                 \<and> set rest \<subseteq> {GetApplication (route_id st)})
          \<and> (\<exists>rest. fst (handleUpdateNote noteId r st) = UpdateNote noteId (noteContent st) # rest
                 \<and> set rest \<subseteq> {GetApplication (route_id st)}))"
proof (intro conjI impI)
  assume blank: "\<forall>c \<in> set (noteContent st). is_whitespace c"
  then have t: "trim (noteContent st) = []"
    by (simp add: trim_empty_iff)
  from t show a: "handleAddNote r st = ([], st)"
    by (simp add: handleAddNote_def)
  from t show u: "handleUpdateNote noteId r st = ([], st)"
    by (simp add: handleUpdateNote_def)
  show "fold serve (fst (handleAddNote r st)) db = db"
    by (simp add: a)
  show "fold serve (fst (handleUpdateNote noteId r st)) db = db"
    by (simp add: u)
next
  assume "\<not> (\<forall>c \<in> set (noteContent st). is_whitespace c)"
  then have t: "trim (noteContent st) \<noteq> []"
    by (simp add: trim_empty_iff)
  let ?c = "CreateNote (route_id st) (noteContent st)"
  let ?f = "\<lambda>s. s\<lparr>noteContent := [], showNoteForm := False\<rparr>"
  from t have "fst (handleAddNote r st) = fst (send_then_fetch ?c ?f r st)"
    by (simp add: handleAddNote_def)
  with send_then_fetch_sent [of ?c ?f r st]
  show "\<exists>rest. fst (handleAddNote r st) = CreateNote (route_id st) (noteContent st) # rest
                 \<and> set rest \<subseteq> {GetApplication (route_id st)}"
    by auto
  let ?u = "UpdateNote noteId (noteContent st)"
  let ?g = "\<lambda>s. s\<lparr>noteContent := [], editingNote := None\<rparr>"
  from t have "fst (handleUpdateNote noteId r st) = fst (send_then_fetch ?u ?g r st)"
    by (simp add: handleUpdateNote_def)
  with send_then_fetch_sent [of ?u ?g r st]
  show "\<exists>rest. fst (handleUpdateNote noteId r st) = UpdateNote noteId (noteContent st) # rest
                 \<and> set rest \<subseteq> {GetApplication (route_id st)}"
    by auto
qed

lemma is_whitespace_examples:
  "is_whitespace CHR '' ''" "is_whitespace (CHR 0x09)" "\<not> is_whitespace CHR ''f''"
  by (simp_all add: is_whitespace_def)

theorem note_requires_content_witness:
  "list_all is_whitespace (noteContent blank_note_page)
   \<and> handleAddNote responses_ok blank_note_page = ([], blank_note_page)
   \<and> handleUpdateNote 3 responses_ok blank_note_page = ([], blank_note_page)
   \<and> \<not> (\<forall>c \<in> set (noteContent typed_note_page). is_whitespace c)
   \<and> (\<exists>rest. fst (handleAddNote responses_ok typed_note_page) = CreateNote 1 '' follow up'' # rest)
   \<and> (\<exists>rest. fst (handleUpdateNote 3 responses_ok typed_note_page)
         = UpdateNote 3 '' follow up'' # rest)"
proof -
  have a: "\<forall>c \<in> set (noteContent blank_note_page). is_whitespace c"
    using is_whitespace_examples by (simp add: blank_note_page_def)
  have b: "\<not> (\<forall>c \<in> set (noteContent typed_note_page). is_whitespace c)"
    using is_whitespace_examples by (simp add: typed_note_page_def)
  have c: "route_id typed_note_page = 1" "noteContent typed_note_page = '' follow up''"
    by (simp_all add: typed_note_page_def initial_job_detail_def)
  note blank = note_requires_content
    [where st = blank_note_page and r = responses_ok and noteId = 3 and serve = "\<lambda>q s. s"
       and db = "()", THEN conjunct1, THEN mp, OF a]
  note typed = note_requires_content
    [where st = typed_note_page and r = responses_ok and noteId = 3 and serve = "\<lambda>q s. s"
       and db = "()", THEN conjunct2, THEN mp, OF b]
  from blank have d: "handleAddNote responses_ok blank_note_page = ([], blank_note_page)"
    "handleUpdateNote 3 responses_ok blank_note_page = ([], blank_note_page)"
    by (rule conjunct1, rule conjunct2 [THEN conjunct1])
  from typed [THEN conjunct1]
  have e: "\<exists>rest. fst (handleAddNote responses_ok typed_note_page) = CreateNote 1 '' follow up'' # rest"
    unfolding c by (elim exE conjE) (rule exI)
  from typed [THEN conjunct2]
  have f: "\<exists>rest. fst (handleUpdateNote 3 responses_ok typed_note_page)
         = UpdateNote 3 '' follow up'' # rest"
    unfolding c by (elim exE conjE) (rule exI)
  from a have a': "list_all is_whitespace (noteContent blank_note_page)"
    by (simp add: list_all_iff)
  from a' b d e f show ?thesis
    by (intro conjI)
qed

lemma send_then_fetch_mem:
  assumes "q \<in> set (fst (send_then_fetch req after r st))"
  shows "q = req \<or> q = GetApplication (route_id (after st))"
  using assms send_then_fetch_sent [of req after r st] by auto

lemma fetchApplication_keeps:
  "route_id (snd (fetchApplication res st)) = route_id st"
  "newDeadline (snd (fetchApplication res st)) = newDeadline st"
  by (simp_all add: fetchApplication_def split: sum.splits)

lemma send_then_fetch_keeps:
  "route_id (snd (send_then_fetch req after r st)) = route_id st
   \<or> route_id (snd (send_then_fetch req after r st)) = route_id (after st)"
  "newDeadline (snd (send_then_fetch req after r st)) = newDeadline st
   \<or> newDeadline (snd (send_then_fetch req after r st)) = newDeadline (after st)"
  by (simp_all add: send_then_fetch_def fetchApplication_keeps split: sum.splits)

lemma job_detail_step_route_id:
  "route_id (snd (job_detail_step parseDate e r st)) = route_id st"
proof (cases e)
  case Mount
  then show ?thesis by (simp add: fetchApplication_keeps)
next
  case (Render now)
  then show ?thesis by (simp add: render_state_def split: option.splits)
next
  case ClickSaveStatus
  then show ?thesis
    using send_then_fetch_keeps(1)
      [of "UpdateApplication (route_id st) (no_fields\<lparr>status := newStatus st\<rparr>)"
          "\<lambda>s. s\<lparr>isEditingStatus := False\<rparr>" r st]
    by (simp add: handleUpdateStatus_def)
next
  case (ClickDeleteApplication c)
  then show ?thesis by (simp add: handleDeleteApplication_def split: sum.splits)
next
  case ClickSaveNote
  then show ?thesis
    using send_then_fetch_keeps(1)
      [of "CreateNote (route_id st) (noteContent st)"
          "\<lambda>s. s\<lparr>noteContent := [], showNoteForm := False\<rparr>" r st]
        send_then_fetch_keeps(1)
      [of "UpdateNote (note_id (the (editingNote st))) (noteContent st)"
          "\<lambda>s. s\<lparr>noteContent := [], editingNote := None\<rparr>" r st]
    by (auto simp: handleAddNote_def handleUpdateNote_def split: option.splits)
next
  case (ClickDeleteNote i c)
  then show ?thesis
    using send_then_fetch_keeps(1) [of "DeleteNote i" "\<lambda>s. s" r st]
    by (simp add: handleDeleteNote_def)
next
  case ClickAddDeadline
  then show ?thesis
  proof (cases "parseDate (form_deadline_date (newDeadline st))")
    case None
    with ClickAddDeadline show ?thesis by (simp add: handleAddDeadline_def)
  next
    case (Some t)
    with ClickAddDeadline show ?thesis
      using send_then_fetch_keeps(1)
        [of "CreateDeadline (route_id st)
               \<lparr>deadline_type = form_deadline_type (newDeadline st), deadline_date = t,
                deadline_description = Some (form_description (newDeadline st)),
                is_completed = False\<rparr>"
            "\<lambda>s. s\<lparr>newDeadline := initial_newDeadline, showDeadlineForm := False\<rparr>" r st]
      by (simp add: handleAddDeadline_def)
  qed
next
  case (ClickToggleDeadline d)
  then show ?thesis
    using send_then_fetch_keeps(1)
      [of "UpdateDeadline (deadline_id d) (\<not> is_completed d)" "\<lambda>s. s" r st]
    by (simp add: handleToggleDeadline_def)
next
  case (ClickDeleteDeadline i c)
  then show ?thesis
    using send_then_fetch_keeps(1) [of "DeleteDeadline i" "\<lambda>s. s" r st]
    by (simp add: handleDeleteDeadline_def)
qed simp_all

lemma deadline_type_value_option: "deadline_type_value v \<in> set deadline_type_options"
  by (cases v) (simp_all add: deadline_type_options_def)

lemma job_detail_step_deadline_type:
  assumes "form_deadline_type (newDeadline st) \<in> set deadline_type_options"
  shows "form_deadline_type (newDeadline (snd (job_detail_step parseDate e r st)))
           \<in> set deadline_type_options"
proof (cases e)
  case Mount
  with assms show ?thesis by (simp add: fetchApplication_keeps)
next
  case (Render now)
  with assms show ?thesis by (simp add: render_state_def split: option.splits)
next
  case ClickSaveStatus
  with assms show ?thesis
    using send_then_fetch_keeps(2)
      [of "UpdateApplication (route_id st) (no_fields\<lparr>status := newStatus st\<rparr>)"
          "\<lambda>s. s\<lparr>isEditingStatus := False\<rparr>" r st]
    by (simp add: handleUpdateStatus_def)
next
  case (ClickDeleteApplication c)
  with assms show ?thesis by (simp add: handleDeleteApplication_def split: sum.splits)
next
  case ClickSaveNote
  with assms show ?thesis
    using send_then_fetch_keeps(2)
      [of "CreateNote (route_id st) (noteContent st)"
          "\<lambda>s. s\<lparr>noteContent := [], showNoteForm := False\<rparr>" r st]
        send_then_fetch_keeps(2)
      [of "UpdateNote (note_id (the (editingNote st))) (noteContent st)"
          "\<lambda>s. s\<lparr>noteContent := [], editingNote := None\<rparr>" r st]
    by (auto simp: handleAddNote_def handleUpdateNote_def split: option.splits)
next
  case (ClickDeleteNote i c)
  with assms show ?thesis
    using send_then_fetch_keeps(2) [of "DeleteNote i" "\<lambda>s. s" r st]
    by (simp add: handleDeleteNote_def)
next
  case (SelectDeadlineType v)
  then show ?thesis by (simp add: deadline_type_value_option)
next
  case ClickAddDeadline
  then show ?thesis
  proof (cases "parseDate (form_deadline_date (newDeadline st))")
    case None
    with ClickAddDeadline assms show ?thesis by (simp add: handleAddDeadline_def)
  next
    case (Some t)
    have "form_deadline_type initial_newDeadline \<in> set deadline_type_options"
      by (simp add: initial_newDeadline_def deadline_type_options_def)
    with Some ClickAddDeadline assms show ?thesis
      using send_then_fetch_keeps(2)
        [of "CreateDeadline (route_id st)
               \<lparr>deadline_type = form_deadline_type (newDeadline st), deadline_date = t,
                deadline_description = Some (form_description (newDeadline st)),
                is_completed = False\<rparr>"
            "\<lambda>s. s\<lparr>newDeadline := initial_newDeadline, showDeadlineForm := False\<rparr>" r st]
      by (auto simp: handleAddDeadline_def)
  qed
next
  case (ClickToggleDeadline d)
  with assms show ?thesis
    using send_then_fetch_keeps(2)
      [of "UpdateDeadline (deadline_id d) (\<not> is_completed d)" "\<lambda>s. s" r st]
    by (simp add: handleToggleDeadline_def)
next
  case (ClickDeleteDeadline i c)
  with assms show ?thesis
    using send_then_fetch_keeps(2) [of "DeleteDeadline i" "\<lambda>s. s" r st]
    by (simp add: handleDeleteDeadline_def)
qed (use assms in simp_all)

lemma job_detail_step_sent:
  assumes "q \<in> set (fst (job_detail_step parseDate e r st))"
  shows "(\<exists>a. q = GetApplication a)
    \<or> (e = ClickSaveStatus \<and> (\<exists>p. q = UpdateApplication (route_id st) p))
    \<or> (\<exists>c. e = ClickDeleteApplication c \<and> q = DeleteApplication (route_id st))
    \<or> (e = ClickSaveNote \<and> trim (noteContent st) \<noteq> []
         \<and> (q = CreateNote (route_id st) (noteContent st)
              \<or> (\<exists>i. q = UpdateNote i (noteContent st))))
    \<or> (\<exists>i c. e = ClickDeleteNote i c \<and> q = DeleteNote i)
    \<or> (e = ClickAddDeadline
         \<and> (\<exists>t. form_deadline_date (newDeadline st) \<noteq> []
                \<and> parseDate (form_deadline_date (newDeadline st)) = Some t
                \<and> q = CreateDeadline (route_id st)
                        \<lparr>deadline_type = form_deadline_type (newDeadline st), deadline_date = t,
                         deadline_description = Some (form_description (newDeadline st)),
                         is_completed = False\<rparr>))
    \<or> (\<exists>d. e = ClickToggleDeadline d \<and> q = UpdateDeadline (deadline_id d) (\<not> is_completed d))
    \<or> (\<exists>i c. e = ClickDeleteDeadline i c \<and> q = DeleteDeadline i)"
proof (cases e)
  case Mount
  with assms show ?thesis by (simp add: fetchApplication_def)
next
  case ClickSaveStatus
  with assms show ?thesis
    by (auto simp: handleUpdateStatus_def dest: send_then_fetch_mem)
next
  case (ClickDeleteApplication c)
  with assms show ?thesis
    by (auto simp: handleDeleteApplication_def split: if_splits sum.splits)
next
  case ClickSaveNote
  with assms show ?thesis
    by (auto simp: handleAddNote_def handleUpdateNote_def
        split: if_splits option.splits dest: send_then_fetch_mem)
next
  case (ClickDeleteNote i c)
  with assms show ?thesis
    by (auto simp: handleDeleteNote_def split: if_splits dest: send_then_fetch_mem)
next
  case ClickAddDeadline
  with assms show ?thesis
    by (auto simp: handleAddDeadline_def split: if_splits option.splits dest: send_then_fetch_mem)
next
  case (ClickToggleDeadline d)
  with assms show ?thesis
    by (auto simp: handleToggleDeadline_def dest: send_then_fetch_mem)
next
  case (ClickDeleteDeadline i c)
  with assms show ?thesis
    by (auto simp: handleDeleteDeadline_def split: if_splits dest: send_then_fetch_mem)
qed (use assms in simp_all)

lemma job_detail_run_sent:
  assumes "q \<in> set (fst (job_detail_run parseDate es st))"
      and "form_deadline_type (newDeadline st) \<in> set deadline_type_options"
  shows "\<exists>e r st'. q \<in> set (fst (job_detail_step parseDate e r st'))
           \<and> route_id st' = route_id st
           \<and> form_deadline_type (newDeadline st') \<in> set deadline_type_options"
  using assms
proof (induction es arbitrary: st)
  case Nil
  then show ?case by simp
next
  case (Cons x es)
  obtain e r where x: "x = (e, r)"
    by (cases x)
  let ?st' = "snd (job_detail_step parseDate e r st)"
  from Cons.prems(1) x
  have "q \<in> set (fst (job_detail_step parseDate e r st))
        \<or> q \<in> set (fst (job_detail_run parseDate es ?st'))"
    by (auto simp: Let_def split: prod.splits)
  then show ?case
  proof
    assume "q \<in> set (fst (job_detail_step parseDate e r st))"
    with Cons.prems(2) show ?thesis
      by blast
  next
    assume later: "q \<in> set (fst (job_detail_run parseDate es ?st'))"
    have inv: "form_deadline_type (newDeadline ?st') \<in> set deadline_type_options"
      using Cons.prems(2) by (rule job_detail_step_deadline_type)
    from Cons.IH [OF later inv] show ?thesis
      by (simp add: job_detail_step_route_id)
  qed
qed

text \<open>
  C7. A deadline is created only with a date and a type. With an empty date in the form,
  \<open>handleAddDeadline\<close> sends nothing. In every session on the page, each create request
  for a deadline is for the application of the page, carries one of the types of the
  selector (none of them empty; the form starts at, and is reset to, \<open>application\<close>),
  the instant of a non-empty date text that parses, and \<open>is_completed\<close> false. The
  deadline created by the scrape-and-create flow has type \<open>application\<close>, the instant
  of a non-empty date text that parses, and \<open>is_completed\<close> false.
\<close>

theorem deadline_create_requires_date_and_type:
  "(form_deadline_date (newDeadline st) = [] \<longrightarrow> handleAddDeadline parseDate r st = ([], st))
   \<and> (CreateDeadline a p \<in> set (fst (job_detail_run parseDate es (initial_job_detail i)))
      \<longrightarrow> a = i \<and> deadline_type p \<noteq> [] \<and> deadline_type p \<in> set deadline_type_options
          \<and> (\<exists>s. s \<noteq> [] \<and> parseDate s = Some (deadline_date p)) \<and> \<not> is_completed p)
   \<and> (CreateDeadline a p \<in> set (fst (handleScrape parseDate sr hs))
      \<longrightarrow> deadline_type p = ''application''
          \<and> (\<exists>s. s \<noteq> [] \<and> parseDate s = Some (deadline_date p)) \<and> \<not> is_completed p)
   \<and> form_deadline_type (newDeadline (initial_job_detail i)) = ''application''"
proof -
  have empty_date:
    "form_deadline_date (newDeadline st) = [] \<longrightarrow> handleAddDeadline parseDate r st = ([], st)"
    by (simp add: handleAddDeadline_def)
  have page: "a = i \<and> deadline_type p \<noteq> [] \<and> deadline_type p \<in> set deadline_type_options
          \<and> (\<exists>s. s \<noteq> [] \<and> parseDate s = Some (deadline_date p)) \<and> \<not> is_completed p"
    if sent: "CreateDeadline a p \<in> set (fst (job_detail_run parseDate es (initial_job_detail i)))"
  proof -
  have start: "form_deadline_type (newDeadline (initial_job_detail i)) \<in> set deadline_type_options"
    by (simp add: initial_job_detail_def initial_newDeadline_def deadline_type_options_def)
  from job_detail_run_sent [OF sent start] obtain e r' st' where
    step: "CreateDeadline a p \<in> set (fst (job_detail_step parseDate e r' st'))"
    and rid: "route_id st' = i"
    and ty: "form_deadline_type (newDeadline st') \<in> set deadline_type_options"
    by (auto simp: initial_job_detail_def)
  from job_detail_step_sent [OF step] obtain t where
    t: "form_deadline_date (newDeadline st') \<noteq> []"
       "parseDate (form_deadline_date (newDeadline st')) = Some t"
       "a = route_id st'"
       "p = \<lparr>deadline_type = form_deadline_type (newDeadline st'), deadline_date = t,
             deadline_description = Some (form_description (newDeadline st')),
             is_completed = False\<rparr>"
    by auto
  have nonempty: "x \<noteq> []" if "x \<in> set deadline_type_options" for x
    using that by (auto simp: deadline_type_options_def)
    from t rid ty nonempty [OF ty] show ?thesis
      by auto
  qed
  have home: "deadline_type p = ''application''
          \<and> (\<exists>s. s \<noteq> [] \<and> parseDate s = Some (deadline_date p)) \<and> \<not> is_completed p"
    if "CreateDeadline a p \<in> set (fst (handleScrape parseDate sr hs))"
  proof -
    from handleScrape_CreateDeadline [OF that] obtain jobData where
      "CreateDeadline a p \<in> set (scraped_deadline parseDate a jobData)"
      by auto
    with scraped_deadline_cases [of parseDate a jobData] show ?thesis
      by auto
  qed
  have initial: "form_deadline_type (newDeadline (initial_job_detail i)) = ''application''"
    by (simp add: initial_job_detail_def initial_newDeadline_def)
  from empty_date page home initial show ?thesis
    by blast
qed

lemma add_interview_session_sent:
  "fst (job_detail_run example_parseDate add_interview_session (initial_job_detail 1)) =
     [GetApplication 1,
      CreateDeadline 1
        \<lparr>deadline_type = ''interview'', deadline_date = 1738368000000,
         deadline_description = Some [], is_completed = False\<rparr>,
      GetApplication 1]"
  by (simp add: add_interview_session_def initial_job_detail_def initial_newDeadline_def
      responses_ok_def fetchApplication_def handleAddDeadline_def send_then_fetch_def
      example_parseDate_def)

theorem deadline_create_requires_date_and_type_witness:
  "form_deadline_date (newDeadline (initial_job_detail 1)) = []
   \<and> handleAddDeadline example_parseDate responses_ok (initial_job_detail 1)
       = ([], initial_job_detail 1)
   \<and> CreateDeadline 1
        \<lparr>deadline_type = ''interview'', deadline_date = 1738368000000,
         deadline_description = Some [], is_completed = False\<rparr>
       \<in> set (fst (job_detail_run example_parseDate add_interview_session (initial_job_detail 1)))
   \<and> ''interview'' \<in> set deadline_type_options
   \<and> (\<exists>s. s \<noteq> [] \<and> example_parseDate s = Some 1738368000000)
   \<and> CreateDeadline 5
        \<lparr>deadline_type = ''application'', deadline_date = 1738368000000,
         deadline_description = Some ''Application deadline'', is_completed = False\<rparr>
       \<in> set (fst (handleScrape example_parseDate (scrape_succeeds techcorp) home_with_url))"
proof -
  let ?p = "\<lparr>deadline_type = ''interview'', deadline_date = 1738368000000,
         deadline_description = Some [], is_completed = False\<rparr>"
  let ?q = "\<lparr>deadline_type = ''application'', deadline_date = 1738368000000,
         deadline_description = Some ''Application deadline'', is_completed = False\<rparr>"
  have a: "form_deadline_date (newDeadline (initial_job_detail 1)) = []"
    by (simp add: initial_job_detail_def initial_newDeadline_def)
  have b: "CreateDeadline 1 ?p
       \<in> set (fst (job_detail_run example_parseDate add_interview_session (initial_job_detail 1)))"
    unfolding add_interview_session_sent by simp
  have c: "CreateDeadline 5 ?q
       \<in> set (fst (handleScrape example_parseDate (scrape_succeeds techcorp) home_with_url))"
    by (simp add: handleScrape_techcorp)
  note inst = deadline_create_requires_date_and_type
    [where st = "initial_job_detail 1" and parseDate = example_parseDate and r = responses_ok
       and a = 1 and p = ?p and es = add_interview_session and i = 1
       and sr = "scrape_succeeds techcorp" and hs = home_with_url]
  from inst [THEN conjunct1, THEN mp, OF a]
  have d: "handleAddDeadline example_parseDate responses_ok (initial_job_detail 1)
       = ([], initial_job_detail 1)" .
  from inst [THEN conjunct2, THEN conjunct1, THEN mp, OF b]
  have e: "''interview'' \<in> set deadline_type_options
     \<and> (\<exists>s. s \<noteq> [] \<and> example_parseDate s = Some 1738368000000)"
    by simp
  from a b c d e show ?thesis
    by (intro conjI) simp_all
qed

section \<open>Completion changes only by the toggle\<close>

lemma job_detail_run_update_from_toggle:
  assumes "UpdateDeadline i b \<in> set (fst (job_detail_run parseDate es st))"
  shows "\<exists>d r. (ClickToggleDeadline d, r) \<in> set es \<and> deadline_id d = i \<and> b = (\<not> is_completed d)"
  using assms
proof (induction es arbitrary: st)
  case Nil
  then show ?case by simp
next
  case (Cons x es)
  obtain e r where x: "x = (e, r)"
    by (cases x)
  from Cons.prems x
  have "UpdateDeadline i b \<in> set (fst (job_detail_step parseDate e r st))
        \<or> UpdateDeadline i b
             \<in> set (fst (job_detail_run parseDate es (snd (job_detail_step parseDate e r st))))"
    by (auto simp: Let_def split: prod.splits)
  then show ?case
  proof
    assume "UpdateDeadline i b \<in> set (fst (job_detail_step parseDate e r st))"
    from job_detail_step_sent [OF this]
    have "\<exists>d. e = ClickToggleDeadline d \<and> deadline_id d = i \<and> b = (\<not> is_completed d)"
      by auto
    with x show ?thesis
      by auto
  next
    assume "UpdateDeadline i b
             \<in> set (fst (job_detail_run parseDate es (snd (job_detail_step parseDate e r st))))"
    from Cons.IH [OF this] show ?thesis
      by auto
  qed
qed

lemma render_state_deadlines:
  assumes "shown_application st = Some app" and "deadlines app = Some ds"
  shows "\<exists>app' ds'. shown_application (render_state st) = Some app'
           \<and> deadlines app' = Some ds' \<and> set ds' = set ds"
  using assms by (auto simp: render_state_def)

lemma render_deadlines_shown:
  assumes "(d, badge) \<in> set (render_deadlines now st)"
  shows "badge = due_badge now d
         \<and> (\<exists>app ds. shown_application st = Some app \<and> deadlines app = Some ds \<and> d \<in> set ds)"
proof -
  from assms have ok: "\<not> (jd_loading st \<or> jd_error st \<noteq> [])"
    by (auto simp: render_deadlines_def split: if_splits)
  from assms ok have "\<exists>app' ds'. shown_application (render_state st) = Some app'
      \<and> deadlines app' = Some ds' \<and> d \<in> set ds' \<and> badge = due_badge now d"
    by (cases "shown_application (render_state st)";
        cases "deadlines (the (shown_application (render_state st)))")
       (auto simp: render_deadlines_def)
  then obtain app' ds' where
    r: "shown_application (render_state st) = Some app'" "deadlines app' = Some ds'"
       "d \<in> set ds'" "badge = due_badge now d"
    by blast
  have "shown_application st = None \<Longrightarrow> render_state st = st"
    by (simp add: render_state_def)
  with r(1) obtain app where app: "shown_application st = Some app"
    by (cases "shown_application st") auto
  have "deadlines app = None \<Longrightarrow> render_state st = st"
    using app by (simp add: render_state_def)
  with r(1,2) app obtain ds where ds: "deadlines app = Some ds"
    by (cases "deadlines app") auto
  from render_state_deadlines [OF app ds] r(1,2) have "set ds' = set ds"
    by auto
  with r app ds show ?thesis
    by auto
qed

text \<open>
  C8. Completion changes only by the user's toggle. In every session on the page of an
  application, a request that updates a deadline is sent only by a click on the toggle of
  that deadline, and carries the negation of the flag shown. Rendering the page at any
  instant sends nothing; every deadline it displays is a deadline of the loaded
  application exactly as held, with the badge (overdue, today, ...) computed beside it.
  The Home page's scrape flow and the application form send no update of a deadline
  either.
\<close>

theorem only_toggle_updates_completion:
  "(UpdateDeadline i b \<in> set (fst (job_detail_run parseDate es st))
      \<longrightarrow> (\<exists>d r. (ClickToggleDeadline d, r) \<in> set es \<and> deadline_id d = i
                 \<and> b = (\<not> is_completed d)))
   \<and> fst (job_detail_step parseDate (Render now) r st) = []
   \<and> ((d, badge) \<in> set (render_deadlines now st)
      \<longrightarrow> badge = due_badge now d
          \<and> (\<exists>app ds. shown_application st = Some app \<and> deadlines app = Some ds \<and> d \<in> set ds))
   \<and> UpdateDeadline i b \<notin> set (fst (handleScrape parseDate sr hs))
   \<and> UpdateDeadline i b \<notin> set (fst (handleScrapeUrl res ms))
   \<and> UpdateDeadline i b \<notin> set (fst (handleSave (handleSaveApplication editingApp t) ms))"
proof -
  have session: "\<exists>d r. (ClickToggleDeadline d, r) \<in> set es \<and> deadline_id d = i
                 \<and> b = (\<not> is_completed d)"
    if "UpdateDeadline i b \<in> set (fst (job_detail_run parseDate es st))"
    using that by (rule job_detail_run_update_from_toggle)
  have render: "fst (job_detail_step parseDate (Render now) r st) = []"
    by simp
  have shown: "badge = due_badge now d
          \<and> (\<exists>app ds. shown_application st = Some app \<and> deadlines app = Some ds \<and> d \<in> set ds)"
    if "(d, badge) \<in> set (render_deadlines now st)"
    using that by (rule render_deadlines_shown)
  have home: "UpdateDeadline i b \<notin> set (fst (handleScrape parseDate sr hs))"
  proof -
    have "UpdateDeadline i b \<notin> set (scraped_deadline parseDate n jobData)" for n jobData
      using scraped_deadline_cases [of parseDate n jobData] by auto
    with handleScrape_sent [of parseDate sr hs] show ?thesis
      by (elim disjE exE conjE) auto
  qed
  have modal: "UpdateDeadline i b \<notin> set (fst (handleScrapeUrl res ms))"
    by (simp add: handleScrapeUrl_def split: sum.splits)
  have form: "UpdateDeadline i b \<notin> set (fst (handleSave (handleSaveApplication editingApp t) ms))"
    by (simp add: handleSave_def handleSaveApplication_def split: option.splits)
  from session render shown home modal form show ?thesis
    by blast
qed

lemma overdue_interview: "due_badge 1740000000000 interview_deadline = Some Overdue"
  by (simp add: due_badge_def getDaysUntilDeadline_def interview_deadline_def)

theorem only_toggle_updates_completion_witness:
  "UpdateDeadline 1 True
     \<in> set (fst (job_detail_run example_parseDate
                  [(Render 1740000000000, responses_ok),
                   (ClickToggleDeadline interview_deadline, responses_ok)] acme_page))
   \<and> deadline_id interview_deadline = 1 \<and> \<not> is_completed interview_deadline
   \<and> (interview_deadline, Some Overdue) \<in> set (render_deadlines 1740000000000 acme_page)
   \<and> due_badge 1740000000000 interview_deadline = Some Overdue
   \<and> (\<exists>app ds. shown_application acme_page = Some app \<and> deadlines app = Some ds
         \<and> interview_deadline \<in> set ds)
   \<and> fst (job_detail_step example_parseDate (Render 1740000000000) responses_ok acme_page) = []"
proof -
  let ?es = "[(Render 1740000000000, responses_ok),
              (ClickToggleDeadline interview_deadline, responses_ok)]"
  have a: "UpdateDeadline 1 True \<in> set (fst (job_detail_run example_parseDate ?es acme_page))"
    by (simp add: handleToggleDeadline_def send_then_fetch_def responses_ok_def
        fetchApplication_def interview_deadline_def)
  have b: "(interview_deadline, Some Overdue) \<in> set (render_deadlines 1740000000000 acme_page)"
    using overdue_interview
    by (simp add: render_deadlines_def render_state_def acme_page_def initial_job_detail_def
        acme_def interview_deadline_def application_deadline_row_def)
  have c: "deadline_id interview_deadline = 1 \<and> \<not> is_completed interview_deadline"
    by (simp add: interview_deadline_def)
  note inst = only_toggle_updates_completion
    [where i = 1 and b = True and parseDate = example_parseDate and es = ?es and st = acme_page
       and now = 1740000000000 and r = responses_ok and d = interview_deadline
       and badge = "Some Overdue"]
  from inst [THEN conjunct1, THEN mp, OF a] a
  have d: "UpdateDeadline 1 True \<in> set (fst (job_detail_run example_parseDate ?es acme_page))"
    by simp
  from inst [THEN conjunct2, THEN conjunct1]
  have e: "fst (job_detail_step example_parseDate (Render 1740000000000) responses_ok acme_page) = []" .
  from inst [THEN conjunct2, THEN conjunct2, THEN conjunct1, THEN mp, OF b]
  have f: "Some Overdue = due_badge 1740000000000 interview_deadline
     \<and> (\<exists>app ds. shown_application acme_page = Some app \<and> deadlines app = Some ds
           \<and> interview_deadline \<in> set ds)" .
  from d c b e f show ?thesis
    by simp
qed

section \<open>Toggling a deadline twice\<close>








lemma render_deadlines_displayed:
  "map fst (render_deadlines now st) = displayed_deadlines st"
  by (simp add: render_deadlines_def displayed_deadlines_def comp_def split: option.splits)





end
